theory Spec2Isabelle
  imports Main "HOL-Library.Word"
begin

unbundle bit_operations_syntax

section \<open>Platform types\<close>

type_synonym WCHAR = "16 word"
type_synonym wstring = "WCHAR list"
type_synonym BYTE = "8 word"
type_synonym WORD = "16 word"
type_synonym DWORD = "32 word"
type_synonym LONG = "32 word"
type_synonym HRESULT = "32 word"
type_synonym GUID = "128 word"

text \<open>A wide string literal \<open>L"..."\<close>: one UTF-16 code unit per ASCII character.\<close>

definition L :: "string \<Rightarrow> wstring" where
  "L s = map of_char s"

text \<open>
  Constructing a \<open>std::wstring\<close> from a \<open>const wchar_t*\<close> copies the code units before the
  first NUL of the array.
\<close>

definition wstring_of_cstr :: "WCHAR list \<Rightarrow> wstring" where
  "wstring_of_cstr arr = takeWhile (\<lambda>c. c \<noteq> 0) arr"

text \<open>
  \<open>::towlower\<close> of the C library. The program never calls \<open>setlocale\<close>, so the "C" locale is
  in force, where exactly the code units of \<open>A\<close>..\<open>Z\<close> are mapped to \<open>a\<close>..\<open>z\<close>.
\<close>

definition towlower :: "WCHAR \<Rightarrow> WCHAR" where
  "towlower c = (if 0x41 \<le> c \<and> c \<le> 0x5A then c + 0x20 else c)"

text \<open>
  \<open>std::wstring::find(needle)\<close>: the lowest position at which \<open>needle\<close> occurs, \<open>npos\<close>
  (here \<open>None\<close>) when it occurs nowhere.
\<close>

fun wfind :: "'a list \<Rightarrow> 'a list \<Rightarrow> nat option" where
  "wfind [] needle = (if needle = [] then Some 0 else None)"
| "wfind (c # cs) needle =
     (if take (length needle) (c # cs) = needle then Some 0
      else map_option Suc (wfind cs needle))"

section \<open>Text output\<close>

definition digit_char :: "nat \<Rightarrow> char" where
  "digit_char d = ''0123456789abcdef'' ! d"

function show_nat :: "nat \<Rightarrow> string" where
  "show_nat n = (if n < 10 then [digit_char n] else show_nat (n div 10) @ [digit_char (n mod 10)])"
  by pat_completeness auto
termination
  by (relation "measure id") auto

declare show_nat.simps [simp del]

function show_hex :: "nat \<Rightarrow> string" where
  "show_hex n = (if n < 16 then [digit_char n] else show_hex (n div 16) @ [digit_char (n mod 16)])"
  by pat_completeness auto
termination
  by (relation "measure id") auto

declare show_hex.simps [simp del]

definition show_int :: "int \<Rightarrow> string" where
  "show_int i = (if i < 0 then ''-'' @ show_nat (nat (- i)) else show_nat (nat i))"

text \<open>\<open>std::to_string\<close> on an integer, and \<open>std::to_wstring\<close> on a \<open>DWORD\<close>.\<close>

definition to_string :: "int \<Rightarrow> string" where
  "to_string i = show_int i"

definition to_wstring :: "DWORD \<Rightarrow> wstring" where
  "to_wstring d = L (show_nat (unat d))"

text \<open>The line feed written as \<open>"\n"\<close> in the sources.\<close>

definition NL :: string where
  "NL = [CHR 0x0A]"

text \<open>
  A \<open>std::ostream\<close> with the part of its formatting state the program touches: the
  \<open>basefield\<close> (\<open>std::hex\<close> or \<open>std::dec\<close>), the fill character, the field width, and the
  characters written so far. Every formatted insertion pads on the left up to the field
  width and resets the width to zero.
\<close>

record ostream =
  os_hex :: bool
  os_fill :: char
  os_width :: nat
  os_text :: string

definition ostream_init :: ostream where
  "ostream_init = \<lparr>os_hex = False, os_fill = CHR '' '', os_width = 0, os_text = []\<rparr>"

definition setw :: "nat \<Rightarrow> ostream \<Rightarrow> ostream" where
  "setw n os = os\<lparr>os_width := n\<rparr>"

definition setfill :: "char \<Rightarrow> ostream \<Rightarrow> ostream" where
  "setfill c os = os\<lparr>os_fill := c\<rparr>"

definition hex :: "ostream \<Rightarrow> ostream" where
  "hex os = os\<lparr>os_hex := True\<rparr>"

definition dec :: "ostream \<Rightarrow> ostream" where
  "dec os = os\<lparr>os_hex := False\<rparr>"

definition put_str :: "string \<Rightarrow> ostream \<Rightarrow> ostream" where
  "put_str s os =
     os\<lparr>os_text := os_text os @ replicate (os_width os - length s) (os_fill os) @ s,
        os_width := 0\<rparr>"

definition put_char :: "char \<Rightarrow> ostream \<Rightarrow> ostream" where
  "put_char c os = put_str [c] os"

text \<open>Insertion of a 32-bit \<open>int\<close> or \<open>long\<close>: in hexadecimal its two's complement pattern.\<close>

definition put_int :: "int \<Rightarrow> ostream \<Rightarrow> ostream" where
  "put_int i os =
     put_str (if os_hex os then show_hex (nat (i mod 2 ^ 32)) else show_int i) os"

text \<open>Insertion of an unsigned integer (\<open>WORD\<close>, \<open>DWORD\<close>).\<close>

definition put_unsigned :: "nat \<Rightarrow> ostream \<Rightarrow> ostream" where
  "put_unsigned n os = put_str (if os_hex os then show_hex n else show_nat n) os"

text \<open>A chain \<open>os << a << b << ...\<close>: the insertions and manipulators act from left to right.\<close>

definition chain :: "(ostream \<Rightarrow> ostream) list \<Rightarrow> ostream \<Rightarrow> ostream" where
  "chain fs os = foldl (\<lambda>s f. f s) os fs"

record console =
  cout :: ostream
  cerr :: ostream

definition console_init :: console where
  "console_init = \<lparr>cout = ostream_init, cerr = ostream_init\<rparr>"

definition to_cout :: "(ostream \<Rightarrow> ostream) list \<Rightarrow> console \<Rightarrow> console" where
  "to_cout fs c = c\<lparr>cout := chain fs (cout c)\<rparr>"

definition to_cerr :: "(ostream \<Rightarrow> ostream) list \<Rightarrow> console \<Rightarrow> console" where
  "to_cerr fs c = c\<lparr>cerr := chain fs (cerr c)\<rparr>"

section \<open>Native build: device catalog\<close>


datatype DeviceKind = XInput | DirectInput

record DeviceInfo =
  index :: int
  kind :: DeviceKind
  name :: wstring
  xinputUser :: DWORD
  diGuid :: GUID

record DIDEVICEINSTANCEW =
  guidInstance :: GUID
  tszProductName :: "WCHAR list"

definition IsLikelyXInputDuplicate :: "DIDEVICEINSTANCEW \<Rightarrow> bool" where
  "IsLikelyXInputDuplicate inst =
     (let name = wstring_of_cstr (tszProductName inst);
          lname = map towlower name
      in if wfind lname (L ''xinput'') \<noteq> None then True
         else if wfind lname (L ''(xbox'') \<noteq> None then True
         else if wfind lname (L ''ig_'') \<noteq> None then True
         else False)"

definition ERROR_SUCCESS :: DWORD where
  "ERROR_SUCCESS = 0"

definition GUID_NULL :: GUID where
  "GUID_NULL = 0"

text \<open>
  What the two device providers report while the catalog is built:
  \<open>XInputGetState_result i\<close> is the return code of \<open>XInputGetState\<close> for user \<open>i\<close>, and
  \<open>DirectInput_devices\<close> is \<open>None\<close> when \<open>DirectInput8Create\<close> fails, otherwise the
  attached game controllers that \<open>EnumDevices\<close> hands to the callback, in order.
\<close>

record providers =
  XInputGetState_result :: "DWORD \<Rightarrow> DWORD"
  DirectInput_devices :: "DIDEVICEINSTANCEW list option"

definition IsXInputConnected :: "providers \<Rightarrow> DWORD \<Rightarrow> bool" where
  "IsXInputConnected p userIdx = (XInputGetState_result p userIdx = ERROR_SUCCESS)"

text \<open>
  The callback appends to the output list unless the device is filtered. The field
  \<open>index\<close> of a fresh \<open>DeviceInfo\<close> is indeterminate in C++ until \<open>EnumerateDevices\<close> assigns
  it; the model starts it at 0.
\<close>

definition EnumDIEnumDevicesCallback :: "DIDEVICEINSTANCEW \<Rightarrow> DeviceInfo list \<Rightarrow> DeviceInfo list" where
  "EnumDIEnumDevicesCallback pdidInstance out =
     (if IsLikelyXInputDuplicate pdidInstance then out
      else out @ [\<lparr>index = 0, kind = DirectInput,
                    name = wstring_of_cstr (tszProductName pdidInstance),
                    xinputUser = 0, diGuid = guidInstance pdidInstance\<rparr>])"

definition xinput_probe :: "providers \<Rightarrow> DeviceInfo list \<Rightarrow> DWORD \<Rightarrow> DeviceInfo list" where
  "xinput_probe p devices i =
     (if IsXInputConnected p i
      then devices @ [\<lparr>index = 0, kind = XInput,
                        name = L ''XInput Controller '' @ to_wstring i,
                        xinputUser = i, diGuid = GUID_NULL\<rparr>]
      else devices)"

definition assign_index :: "DeviceInfo list \<Rightarrow> nat \<Rightarrow> DeviceInfo list" where
  "assign_index devices i = devices[i := (devices ! i)\<lparr>index := int i\<rparr>]"

definition EnumerateDevices :: "providers \<Rightarrow> DeviceInfo list" where
  "EnumerateDevices p =
     (let devices = foldl (xinput_probe p) [] [0, 1, 2, 3];
          devices = (case DirectInput_devices p of
                       None \<Rightarrow> devices
                     | Some insts \<Rightarrow> foldl (\<lambda>out inst. EnumDIEnumDevicesCallback inst out) devices insts)
      in foldl assign_index devices [0..<length devices])"

definition WToUtf8 :: "(wstring \<Rightarrow> string) \<Rightarrow> wstring \<Rightarrow> string" where
  \<comment> \<open>the first argument is \<open>WideCharToMultiByte\<close> with \<open>CP_UTF8\<close>, a service of the platform\<close>
  "WToUtf8 WideCharToMultiByte ws = (if ws = [] then [] else WideCharToMultiByte ws)"

section \<open>Native build: state lines\<close>

record XINPUT_GAMEPAD =
  wButtons :: WORD
  bLeftTrigger :: BYTE
  bRightTrigger :: BYTE
  sThumbLX :: "16 word"
  sThumbLY :: "16 word"
  sThumbRX :: "16 word"
  sThumbRY :: "16 word"

record XINPUT_STATE =
  dwPacketNumber :: DWORD
  Gamepad :: XINPUT_GAMEPAD

definition XINPUT_GAMEPAD_DPAD_UP :: WORD where "XINPUT_GAMEPAD_DPAD_UP = 0x0001"
definition XINPUT_GAMEPAD_DPAD_DOWN :: WORD where "XINPUT_GAMEPAD_DPAD_DOWN = 0x0002"
definition XINPUT_GAMEPAD_DPAD_LEFT :: WORD where "XINPUT_GAMEPAD_DPAD_LEFT = 0x0004"
definition XINPUT_GAMEPAD_DPAD_RIGHT :: WORD where "XINPUT_GAMEPAD_DPAD_RIGHT = 0x0008"

definition PrintXInputState :: "XINPUT_STATE \<Rightarrow> ostream \<Rightarrow> ostream" where
  "PrintXInputState s =
     (let g = Gamepad s in
      chain
       [put_str ''LX='', setw 6, put_int (sint (sThumbLX g)), put_str ''  '',
        put_str ''LY='', setw 6, put_int (sint (sThumbLY g)), put_str ''  '',
        put_str ''RX='', setw 6, put_int (sint (sThumbRX g)), put_str ''  '',
        put_str ''RY='', setw 6, put_int (sint (sThumbRY g)), put_str ''  '',
        put_str ''LT='', setw 3, put_int (uint (bLeftTrigger g)), put_str ''  '',
        put_str ''RT='', setw 3, put_int (uint (bRightTrigger g)), put_str ''  '',
        put_str ''Buttons=0x'', hex, setw 4, setfill CHR ''0'', put_unsigned (unat (wButtons g)),
        dec, setfill CHR '' '', put_str ''  '',
        put_str ''DPad(U/D/L/R)='',
        put_int (if wButtons g AND XINPUT_GAMEPAD_DPAD_UP \<noteq> 0 then 1 else 0), put_str ''/'',
        put_int (if wButtons g AND XINPUT_GAMEPAD_DPAD_DOWN \<noteq> 0 then 1 else 0), put_str ''/'',
        put_int (if wButtons g AND XINPUT_GAMEPAD_DPAD_LEFT \<noteq> 0 then 1 else 0), put_str ''/'',
        put_int (if wButtons g AND XINPUT_GAMEPAD_DPAD_RIGHT \<noteq> 0 then 1 else 0),
        put_str NL])"

text \<open>The fields of \<open>DIJOYSTATE2\<close> that the program reads; the arrays are indexed from 0.\<close>

record DIJOYSTATE2 =
  lX :: LONG
  lY :: LONG
  lZ :: LONG
  lRx :: LONG
  lRy :: LONG
  lRz :: LONG
  rglSlider :: "nat \<Rightarrow> LONG"
  rgdwPOV :: "nat \<Rightarrow> DWORD"
  rgbButtons :: "nat \<Rightarrow> BYTE"

definition print_pov :: "DIJOYSTATE2 \<Rightarrow> ostream \<Rightarrow> nat \<Rightarrow> ostream" where
  "print_pov js os i =
     (let pov = rgdwPOV js i in
      if pov = 0xFFFFFFFF then put_str ''---- '' os
      else chain [setw 4, put_unsigned (unat pov), put_str '' ''] os)"

definition print_button :: "DIJOYSTATE2 \<Rightarrow> ostream \<Rightarrow> nat \<Rightarrow> ostream" where
  "print_button js os i =
     put_char (if rgbButtons js i AND 0x80 \<noteq> 0 then CHR ''1'' else CHR ''0'') os"

definition PrintDIState :: "DIJOYSTATE2 \<Rightarrow> ostream \<Rightarrow> ostream" where
  "PrintDIState js os =
     (let os = chain
            [put_str ''AXES: '',
             put_str ''lX='', setw 6, put_int (sint (lX js)), put_str '' '',
             put_str ''lY='', setw 6, put_int (sint (lY js)), put_str '' '',
             put_str ''lZ='', setw 6, put_int (sint (lZ js)), put_str '' '',
             put_str ''lRx='', setw 6, put_int (sint (lRx js)), put_str '' '',
             put_str ''lRy='', setw 6, put_int (sint (lRy js)), put_str '' '',
             put_str ''lRz='', setw 6, put_int (sint (lRz js)), put_str '' '',
             put_str ''S0='', setw 6, put_int (sint (rglSlider js 0)), put_str '' '',
             put_str ''S1='', setw 6, put_int (sint (rglSlider js 1)), put_str '' | ''] os;
          os = put_str ''POV: '' os;
          os = foldl (print_pov js) os [0..<4];
          os = put_str ''| BTN: '' os;
          os = foldl (print_button js) os [0..<32]
      in put_str NL os)"

section \<open>Native build: the polled reader\<close>

text \<open>The body of the loop of \<open>RunXInputReader\<close> after a successful read.\<close>

definition xinput_changed :: "DWORD \<Rightarrow> XINPUT_STATE \<Rightarrow> console \<Rightarrow> DWORD \<times> console" where
  "xinput_changed lastPacket st c =
     (if dwPacketNumber st \<noteq> lastPacket
      then (dwPacketNumber st, to_cout [PrintXInputState st] c)
      else (lastPacket, c))"

text \<open>
  The loop, run against a script: the values that the successive loads of \<open>g_Running\<close>
  return, and the results of the successive calls of \<open>XInputGetState\<close> for the selected
  user. The exit code is \<open>None\<close> when the script ends while the loop is still running.
\<close>

fun RunXInputLoop ::
  "bool list \<Rightarrow> (DWORD \<times> XINPUT_STATE) list \<Rightarrow> DWORD \<Rightarrow> console \<Rightarrow> int option \<times> console" where
  "RunXInputLoop [] reads lastPacket c = (None, c)"
| "RunXInputLoop (running # rs) reads lastPacket c =
     (if \<not> running then (Some 0, c)
      else case reads of
        [] \<Rightarrow> (None, c)
      | (res, st) # reads' \<Rightarrow>
          if res \<noteq> ERROR_SUCCESS
          then (Some 1, to_cout [put_str (''Controller disconnected.'' @ NL)] c)
          else (case xinput_changed lastPacket st c of
                  (lastPacket', c') \<Rightarrow> RunXInputLoop rs reads' lastPacket' c'))"

definition RunXInputReader ::
  "bool list \<Rightarrow> (DWORD \<times> XINPUT_STATE) list \<Rightarrow> DWORD \<Rightarrow> console \<Rightarrow> int option \<times> console" where
  "RunXInputReader running reads userIndex c =
     RunXInputLoop running reads 0
       (to_cout [put_str ''Reading XInput controller '', put_unsigned (unat userIndex),
                 put_str ('' (Ctrl+C to stop)...'' @ NL)] c)"

section \<open>Native build: the event-driven reader\<close>

definition FAILED :: "HRESULT \<Rightarrow> bool" where
  "FAILED hr = (sint hr < 0)"

definition SUCCEEDED :: "HRESULT \<Rightarrow> bool" where
  "SUCCEEDED hr = (sint hr \<ge> 0)"

definition DIERR_INPUTLOST :: HRESULT where "DIERR_INPUTLOST = 0x8007001E"
definition DIERR_NOTACQUIRED :: HRESULT where "DIERR_NOTACQUIRED = 0x8007000C"
definition WAIT_OBJECT_0 :: DWORD where "WAIT_OBJECT_0 = 0"
definition WAIT_TIMEOUT :: DWORD where "WAIT_TIMEOUT = 258"

text \<open>The calls the reader makes on the device, with the status each returned.\<close>

datatype di_call =
    WaitForSingleObject DWORD
  | GetDeviceData HRESULT
  | GetDeviceState HRESULT
  | Acquire
  | Unacquire
  | SetEventNotification_null
  | CloseHandle
  | Release

text \<open>
  The script of a device: the results of the successive waits, of the successive calls of
  \<open>GetDeviceData\<close> (status and number of items), and of \<open>GetDeviceState\<close>.
\<close>

record di_device =
  waits :: "DWORD list"
  datas :: "(HRESULT \<times> DWORD) list"
  states :: "(HRESULT \<times> DIJOYSTATE2) list"

definition state_lost :: "HRESULT \<Rightarrow> bool" where
  "state_lost hr = (hr = DIERR_INPUTLOST \<or> hr = DIERR_NOTACQUIRED)"

text \<open>
  The inner \<open>while (true)\<close> that drains the buffered events; its \<open>continue\<close> after
  \<open>Acquire\<close> restarts this inner loop. \<open>None\<close>: the script ends inside the loop.
\<close>

fun drain :: "(HRESULT \<times> DWORD) list \<Rightarrow> (di_call list \<times> (HRESULT \<times> DWORD) list) option" where
  "drain [] = None"
| "drain ((hr, dwItems) # rest) =
     (if state_lost hr
      then map_option (\<lambda>(calls, r). (GetDeviceData hr # Acquire # calls, r)) (drain rest)
      else if FAILED hr \<or> dwItems = 0 then Some ([GetDeviceData hr], rest)
      else map_option (\<lambda>(calls, r). (GetDeviceData hr # calls, r)) (drain rest))"

datatype loop_ctl = Continue | Break

text \<open>One pass through the body of the main event loop.\<close>

definition di_iteration ::
  "di_device \<Rightarrow> console \<Rightarrow> (loop_ctl \<times> di_call list \<times> di_device \<times> console) option" where
  "di_iteration dev c =
     (case waits dev of
        [] \<Rightarrow> None
      | wait # ws \<Rightarrow>
          if wait = WAIT_OBJECT_0 then
            (case drain (datas dev) of
               None \<Rightarrow> None
             | Some (calls, ds) \<Rightarrow>
                 (case states dev of
                    [] \<Rightarrow> None
                  | (hr, js) # sts \<Rightarrow>
                      let dev' = dev\<lparr>waits := ws, datas := ds, states := sts\<rparr> in
                      if state_lost hr
                      then Some (Continue,
                                 WaitForSingleObject wait # calls @ [GetDeviceState hr, Acquire],
                                 dev', c)
                      else Some (Continue,
                                 WaitForSingleObject wait # calls @ [GetDeviceState hr],
                                 dev',
                                 if SUCCEEDED hr then to_cout [PrintDIState js] c else c)))
          else if wait = WAIT_TIMEOUT then
            (case states dev of
               [] \<Rightarrow> None
             | (hr, js) # sts \<Rightarrow>
                 let dev' = dev\<lparr>waits := ws, states := sts\<rparr> in
                 if state_lost hr
                 then Some (Continue, [WaitForSingleObject wait, GetDeviceState hr, Acquire], dev', c)
                 else if FAILED hr
                 then Some (Break, [WaitForSingleObject wait, GetDeviceState hr], dev',
                            to_cout [put_str (''Device disconnected or error.'' @ NL)] c)
                 else Some (Continue, [WaitForSingleObject wait, GetDeviceState hr], dev', c))
          else Some (Break, [WaitForSingleObject wait], dev\<lparr>waits := ws\<rparr>,
                     to_cerr [put_str (''WaitForSingleObject failed.'' @ NL)] c))"

text \<open>
  The main event loop; it ends when \<open>g_Running\<close> is false or on \<open>break\<close>. The result is the
  calls made and the console; \<open>None\<close> when the script ends while the loop is running.
\<close>

fun RunDirectInputLoop ::
  "bool list \<Rightarrow> di_device \<Rightarrow> console \<Rightarrow> (di_call list \<times> console) option" where
  "RunDirectInputLoop [] dev c = None"
| "RunDirectInputLoop (running # rs) dev c =
     (if \<not> running then Some ([], c)
      else case di_iteration dev c of
        None \<Rightarrow> None
      | Some (ctl, calls, dev', c') \<Rightarrow>
          if ctl = Break then Some (calls, c')
          else map_option (\<lambda>(calls', c''). (calls @ calls', c'')) (RunDirectInputLoop rs dev' c'))"

text \<open>Which of the set-up calls of \<open>RunDirectInputReader\<close> succeed.\<close>

record di_setup =
  DirectInput8Create_ok :: bool
  CreateDevice_ok :: bool
  CreateHiddenWindow_ok :: bool
  SetDataFormat_ok :: bool
  SetCooperativeLevel_ok :: bool
  CreateEvent_ok :: bool
  SetEventNotification_ok :: bool
  Acquire_ok :: bool

definition fail_with :: "string \<Rightarrow> int \<Rightarrow> console \<Rightarrow> (int \<times> di_call list \<times> console) option" where
  "fail_with msg rc c = Some (rc, [], to_cerr [put_str (msg @ NL)] c)"

text \<open>
  \<open>g_HiddenWnd\<close> is passed as whether the window exists already. The result is the exit
  code, the calls made on the device from the main loop on, and the console.
\<close>

definition RunDirectInputReader ::
  "di_setup \<Rightarrow> bool \<Rightarrow> bool list \<Rightarrow> di_device \<Rightarrow> console \<Rightarrow> (int \<times> di_call list \<times> console) option" where
  "RunDirectInputReader setup g_HiddenWnd running dev c0 =
     (let c = to_cout [put_str (''Reading DirectInput device (Ctrl+C to stop)...'' @ NL)] c0 in
      if \<not> DirectInput8Create_ok setup then fail_with ''DirectInput8Create failed.'' 2 c
      else if \<not> CreateDevice_ok setup then fail_with ''CreateDevice failed.'' 3 c
      else if \<not> g_HiddenWnd \<and> \<not> CreateHiddenWindow_ok setup
        then fail_with ''Failed to create hidden window for DirectInput.'' 4 c
      else if \<not> SetDataFormat_ok setup then fail_with ''SetDataFormat failed.'' 5 c
      else if \<not> SetCooperativeLevel_ok setup then fail_with ''SetCooperativeLevel failed.'' 6 c
      else if \<not> CreateEvent_ok setup then fail_with ''CreateEvent failed.'' 7 c
      else if \<not> SetEventNotification_ok setup then fail_with ''SetEventNotification failed.'' 8 c
      else if \<not> Acquire_ok setup then fail_with ''Acquire failed.'' 9 c
      else (case RunDirectInputLoop running dev c of
              None \<Rightarrow> None
            | Some (calls, c') \<Rightarrow>
                Some (0, calls @ [Unacquire, SetEventNotification_null, CloseHandle, Release, Release], c')))"

section \<open>Native build: command line\<close>

text \<open>
  \<open>std::stoi\<close> in base 10, as \<open>strtol\<close> reads it: leading white space is skipped, one sign
  is accepted, then the longest run of digits is converted and whatever follows is
  ignored. No digit: \<open>std::invalid_argument\<close>; a value outside \<open>int\<close>: \<open>std::out_of_range\<close>.
\<close>

datatype stoi_error = invalid_argument | out_of_range

definition isspace :: "char \<Rightarrow> bool" where
  "isspace c = (c = CHR '' '' \<or> (0x09 \<le> (of_char c :: nat) \<and> (of_char c :: nat) \<le> 0x0D))"

definition isdigit :: "char \<Rightarrow> bool" where
  "isdigit c = (0x30 \<le> (of_char c :: nat) \<and> (of_char c :: nat) \<le> 0x39)"

definition digits_value :: "string \<Rightarrow> int" where
  "digits_value ds = foldl (\<lambda>acc c. acc * 10 + (of_char c - 0x30)) 0 ds"

definition stoi :: "string \<Rightarrow> stoi_error + int" where
  "stoi str =
     (let s1 = dropWhile isspace str;
          neg = (s1 \<noteq> [] \<and> hd s1 = CHR ''-'');
          s2 = (if s1 \<noteq> [] \<and> (hd s1 = CHR ''-'' \<or> hd s1 = CHR ''+'') then tl s1 else s1);
          ds = takeWhile isdigit s2
      in if ds = [] then Inl invalid_argument
         else let v = (if neg then - digits_value ds else digits_value ds)
              in if v < - (2 ^ 31) \<or> 2 ^ 31 \<le> v then Inl out_of_range else Inr v)"

text \<open>
  Everything the process meets: the devices present, the conversion service, whether the
  hidden window can be created at start-up, and the scripts of the stop flag and of the
  selected device.
\<close>

record platform =
  present :: providers
  WideCharToMultiByte :: "wstring \<Rightarrow> string"
  hidden_window_created :: bool
  g_Running_loads :: "bool list"
  XInputGetState_reads :: "DWORD \<Rightarrow> (DWORD \<times> XINPUT_STATE) list"
  dinput_setup :: di_setup
  dinput_device :: "GUID \<Rightarrow> di_device"

definition kind_label :: "DeviceKind \<Rightarrow> string" where
  "kind_label k = (if k = XInput then ''XInput   '' else ''DirectInp'')"

definition print_device :: "platform \<Rightarrow> console \<Rightarrow> DeviceInfo \<Rightarrow> console" where
  "print_device w c d =
     (let c = to_cout [put_str ''  ['', put_int (index d), put_str ''] '',
                       put_str (kind_label (kind d)), put_str ''  '',
                       put_str (WToUtf8 (WideCharToMultiByte w) (name d))] c;
          c = (if kind d = XInput
               then to_cout [put_str '' (user='', put_unsigned (unat (xinputUser d)), put_str '')''] c
               else c)
      in to_cout [put_str NL] c)"

definition PrintUsageAndList :: "platform \<Rightarrow> console \<Rightarrow> console" where
  "PrintUsageAndList w c0 =
     (let c = to_cout [put_str (''Usage: JoystickInput <deviceIndex>'' @ NL)] c0;
          c = to_cout [put_str (''No argument: lists available devices with their integer index.''
                                @ NL @ NL)] c;
          devices = EnumerateDevices (present w)
      in if devices = [] then to_cout [put_str (''No game controllers detected.'' @ NL)] c
         else foldl (print_device w) (to_cout [put_str (''Available devices:'' @ NL)] c) devices)"

text \<open>\<open>main\<close>: \<open>argv\<close> holds the program name and the arguments, so \<open>argc = length argv\<close>.\<close>

definition main :: "platform \<Rightarrow> string list \<Rightarrow> console \<Rightarrow> int option \<times> console" where
  "main w argv c =
     (if length argv < 2 then (Some 0, PrintUsageAndList w c)
      else case stoi (argv ! 1) of
        Inl e \<Rightarrow>
          (Some 1, PrintUsageAndList w
             (to_cerr [put_str (''Invalid argument. Must be an integer device index.'' @ NL @ NL)] c))
      | Inr selectedIndex \<Rightarrow>
          let devices = EnumerateDevices (present w) in
          if selectedIndex < 0 \<or> selectedIndex \<ge> int (length devices)
          then (Some 1, PrintUsageAndList w
                  (to_cerr [put_str (''Device index out of range.'' @ NL @ NL)] c))
          else
            let sel = devices ! nat selectedIndex;
                c = to_cout [put_str ''Selected ['', put_int (index sel), put_str ''] '',
                             put_str (kind_label (kind sel)), put_str ''  '',
                             put_str (WToUtf8 (WideCharToMultiByte w) (name sel)), put_str NL] c
            in if kind sel = XInput
               then RunXInputReader (g_Running_loads w) (XInputGetState_reads w (xinputUser sel))
                      (xinputUser sel) c
               else (case RunDirectInputReader (dinput_setup w) (hidden_window_created w)
                            (g_Running_loads w) (dinput_device w (diGuid sel)) c of
                       None \<Rightarrow> (None, c)
                     | Some (rc, calls, c') \<Rightarrow> (Some rc, c')))"

section \<open>Browser build\<close>

text \<open>
  The type \<open>'d\<close> stands for \<open>double\<close>. \<open>EMSCRIPTEN_RESULT\<close> and \<open>EM_BOOL\<close> are \<open>int\<close>.
\<close>

definition EMSCRIPTEN_RESULT_SUCCESS :: int where
  "EMSCRIPTEN_RESULT_SUCCESS = 0"

record 'd EmscriptenGamepadEvent =
  ev_timestamp :: 'd
  ev_numAxes :: int
  ev_numButtons :: int
  ev_axis :: "nat \<Rightarrow> 'd"
  ev_analogButton :: "nat \<Rightarrow> 'd"
  ev_digitalButton :: "nat \<Rightarrow> int"
  ev_connected :: int
  ev_id :: string
  ev_mapping :: string

text \<open>
  What the browser answers during one exported call: the value returned by
  \<open>emscripten_sample_gamepad_data\<close>, which the code reads as the number of gamepads, and
  the result of \<open>emscripten_get_gamepad_status\<close> for each index.
\<close>

record 'd browser =
  sample_gamepad_data :: int
  get_gamepad_status :: "int \<Rightarrow> int \<times> 'd EmscriptenGamepadEvent"

record GamepadInfo =
  info_index :: int
  info_id :: string
  info_mapping :: string
  info_connected :: bool
  info_numButtons :: int
  info_numAxes :: int

record 'd GamepadState =
  state_index :: int
  axes :: "'d list"
  buttons :: "bool list"
  buttonValues :: "'d list"
  state_timestamp :: "'d option"

record web_state =
  g_gamepads :: "GamepadInfo list"
  g_streaming :: bool
  g_selectedGamepad :: int
  web_cout :: string

definition web_init :: web_state where
  "web_init = \<lparr>g_gamepads = [], g_streaming = False, g_selectedGamepad = -1, web_cout = []\<rparr>"

text \<open>
  The first argument renders one axis value, that is
  \<open>std::to_string(static_cast<int>(x * 1000) / 1000.0)\<close> on a \<open>double\<close>.
\<close>

definition FormatGamepadState :: "('d \<Rightarrow> string) \<Rightarrow> 'd GamepadState \<Rightarrow> string" where
  "FormatGamepadState axis_text state =
     (let result = ''Gamepad '' @ to_string (state_index state) @ '': '';
          result = result @ ''AXES: '';
          result = foldl (\<lambda>r i. r @ ''A'' @ to_string (int i) @ ''='' @ axis_text (axes state ! i) @ '' '')
                     result [0..<length (axes state)];
          result = result @ ''| BUTTONS: '';
          result = foldl (\<lambda>r i. r @ (if buttons state ! i then ''1'' else ''0''))
                     result [0..<length (buttons state)]
      in result)"

definition probe_gamepad :: "'d browser \<Rightarrow> GamepadInfo list \<Rightarrow> nat \<Rightarrow> GamepadInfo list" where
  "probe_gamepad b gamepads i =
     (case get_gamepad_status b (int i) of
        (result, gamepadState) \<Rightarrow>
          if result = EMSCRIPTEN_RESULT_SUCCESS \<and> ev_connected gamepadState \<noteq> 0
          then gamepads @ [\<lparr>info_index = int i, info_id = ev_id gamepadState,
                             info_mapping = ev_mapping gamepadState,
                             info_connected = (ev_connected gamepadState \<noteq> 0),
                             info_numButtons = ev_numButtons gamepadState,
                             info_numAxes = ev_numAxes gamepadState\<rparr>]
          else gamepads)"

definition UpdateGamepadList :: "'d browser \<Rightarrow> web_state \<Rightarrow> web_state" where
  "UpdateGamepadList b s =
     (let numGamepads = sample_gamepad_data b
      in s\<lparr>g_gamepads := foldl (probe_gamepad b) [] [0..<nat numGamepads]\<rparr>)"

definition GetGamepadState :: "'d browser \<Rightarrow> int \<Rightarrow> 'd GamepadState" where
  "GetGamepadState b idx =
     (case get_gamepad_status b idx of
        (result, gamepadEvent) \<Rightarrow>
          if result = EMSCRIPTEN_RESULT_SUCCESS \<and> ev_connected gamepadEvent \<noteq> 0
          then \<lparr>state_index = idx,
                axes = map (ev_axis gamepadEvent) [0..<nat (ev_numAxes gamepadEvent)],
                buttons = map (\<lambda>i. ev_digitalButton gamepadEvent i \<noteq> 0)
                            [0..<nat (ev_numButtons gamepadEvent)],
                buttonValues = map (ev_analogButton gamepadEvent)
                                 [0..<nat (ev_numButtons gamepadEvent)],
                state_timestamp = Some (ev_timestamp gamepadEvent)\<rparr>
          else \<lparr>state_index = idx, axes = [], buttons = [], buttonValues = [],
                state_timestamp = None\<rparr>)"

definition print_gamepad :: "string \<Rightarrow> GamepadInfo \<Rightarrow> string" where
  "print_gamepad out gamepad =
     out @ ''  ['' @ to_string (info_index gamepad) @ ''] '' @ info_id gamepad
         @ '' ('' @ info_mapping gamepad @ '') ''
         @ ''Buttons: '' @ to_string (info_numButtons gamepad) @ '' ''
         @ ''Axes: '' @ to_string (info_numAxes gamepad) @ NL"

definition ListGamepads :: "'d browser \<Rightarrow> web_state \<Rightarrow> int \<times> web_state" where
  "ListGamepads b s0 =
     (let s = UpdateGamepadList b s0;
          out = foldl print_gamepad (web_cout s @ ''Available gamepads:'' @ NL) (g_gamepads s);
          out = (if g_gamepads s = []
                 then out @ ''No gamepads detected. Make sure a gamepad is connected and press any button on it.'' @ NL
                 else out)
      in (int (length (g_gamepads s)), s\<lparr>web_cout := out\<rparr>))"

definition StartStreaming :: "'d browser \<Rightarrow> int \<Rightarrow> web_state \<Rightarrow> int \<times> web_state" where
  "StartStreaming b gamepadIndex s0 =
     (let s = UpdateGamepadList b s0 in
      if gamepadIndex < 0 \<or> gamepadIndex \<ge> int (length (g_gamepads s))
      then (0, s\<lparr>web_cout := web_cout s @ ''Invalid gamepad index: '' @ to_string gamepadIndex @ NL\<rparr>)
      else (1, s\<lparr>g_selectedGamepad := gamepadIndex, g_streaming := True,
                 web_cout := web_cout s @ ''Starting to stream input from gamepad ''
                   @ to_string gamepadIndex @ '' ('' @ info_id (g_gamepads s ! nat gamepadIndex) @ '')'' @ NL
                   @ ''Press ESC or call StopStreaming() to stop.'' @ NL\<rparr>))"

definition StopStreaming :: "web_state \<Rightarrow> web_state" where
  "StopStreaming s =
     s\<lparr>g_streaming := False, g_selectedGamepad := -1,
       web_cout := web_cout s @ ''Stopped streaming gamepad input.'' @ NL\<rparr>"

definition UpdateGamepadState :: "('d \<Rightarrow> string) \<Rightarrow> 'd browser \<Rightarrow> web_state \<Rightarrow> web_state" where
  "UpdateGamepadState axis_text b s =
     (if \<not> g_streaming s \<or> g_selectedGamepad s < 0 then s
      else let state = GetGamepadState b (g_selectedGamepad s) in
           if axes state \<noteq> [] \<or> buttons state \<noteq> []
           then s\<lparr>web_cout := web_cout s @ FormatGamepadState axis_text state @ NL\<rparr>
           else s)"

definition IsStreaming :: "web_state \<Rightarrow> int" where
  "IsStreaming s = (if g_streaming s then 1 else 0)"

definition GetSelectedGamepad :: "web_state \<Rightarrow> int" where
  "GetSelectedGamepad s = g_selectedGamepad s"

text \<open>The exported operations as calls the hosting page can make, in any order.\<close>

datatype 'd web_call =
    Call_ListGamepads "'d browser"
  | Call_StartStreaming "'d browser" int
  | Call_StopStreaming
  | Call_UpdateGamepadState "'d browser"

fun web_exec :: "('d \<Rightarrow> string) \<Rightarrow> web_state \<Rightarrow> 'd web_call \<Rightarrow> web_state" where
  "web_exec axis_text s (Call_ListGamepads b) = snd (ListGamepads b s)"
| "web_exec axis_text s (Call_StartStreaming b i) = snd (StartStreaming b i s)"
| "web_exec axis_text s Call_StopStreaming = StopStreaming s"
| "web_exec axis_text s (Call_UpdateGamepadState b) = UpdateGamepadState axis_text b s"

text \<open>The specification's wording of the filter: substring containment in the case-folded name.\<close>

definition is_substring :: "'a list \<Rightarrow> 'a list \<Rightarrow> bool" where
  "is_substring needle hay = (\<exists>before after. hay = before @ needle @ after)"

definition case_folded :: "wstring \<Rightarrow> wstring" where
  "case_folded s = map towlower s"

text \<open>The devices of the catalog before the indices are assigned.\<close>

definition merged_devices :: "providers \<Rightarrow> DeviceInfo list" where
  "merged_devices p =
     (case DirectInput_devices p of
        None \<Rightarrow> foldl (xinput_probe p) [] [0, 1, 2, 3]
      | Some insts \<Rightarrow>
          foldl (\<lambda>out inst. EnumDIEnumDevicesCallback inst out)
            (foldl (xinput_probe p) [] [0, 1, 2, 3]) insts)"

text \<open>A browser slot whose status read succeeds and reports a connected gamepad.\<close>

definition slot_connected :: "'d browser \<Rightarrow> nat \<Rightarrow> bool" where
  "slot_connected b i =
     (fst (get_gamepad_status b (int i)) = EMSCRIPTEN_RESULT_SUCCESS
      \<and> ev_connected (snd (get_gamepad_status b (int i))) \<noteq> 0)"

text \<open>The formatting state a stream starts in.\<close>

definition default_fmt :: "ostream \<Rightarrow> bool" where
  "default_fmt os = (\<not> os_hex os \<and> os_fill os = CHR '' '' \<and> os_width os = 0)"

text \<open>
  An operation that treats the text already written as a prefix it never inspects.
\<close>

definition appends_only :: "(ostream \<Rightarrow> ostream) \<Rightarrow> bool" where
  "appends_only f =
     (\<forall>os pre. f (os\<lparr>os_text := pre @ os_text os\<rparr>) = (f os)\<lparr>os_text := pre @ os_text (f os)\<rparr>)"

text \<open>The lines the two native formatters write on a fresh stream.\<close>

definition XInputLine :: "XINPUT_STATE \<Rightarrow> string" where
  "XInputLine s = os_text (PrintXInputState s ostream_init)"

definition DILine :: "DIJOYSTATE2 \<Rightarrow> string" where
  "DILine js = os_text (PrintDIState js ostream_init)"

text \<open>
  The specification's wording of the polled mode: a read whose sequence id equals that of
  the read before it (initially the remembered 0) produces nothing, any other read produces
  one formatted line.
\<close>

fun polled_output :: "DWORD \<Rightarrow> XINPUT_STATE list \<Rightarrow> string" where
  "polled_output prev [] = []"
| "polled_output prev (st # sts) =
     (if dwPacketNumber st = prev then [] else XInputLine st)
     @ polled_output (dwPacketNumber st) sts"

text \<open>The loop body of \<open>RunXInputReader\<close> run over successive successful reads.\<close>

definition polled_reads :: "DWORD \<times> console \<Rightarrow> XINPUT_STATE list \<Rightarrow> DWORD \<times> console" where
  "polled_reads start sts = foldl (\<lambda>(lastPacket, c) st. xinput_changed lastPacket st c) start sts"

text \<open>The first line \<open>RunXInputReader\<close> prints.\<close>

definition reader_banner :: "DWORD \<Rightarrow> console \<Rightarrow> console" where
  "reader_banner userIndex c =
     to_cout [put_str ''Reading XInput controller '', put_unsigned (unat userIndex),
              put_str ('' (Ctrl+C to stop)...'' @ NL)] c"

text \<open>
  A call that returned "device state lost", and the discipline of re-acquiring: each such
  call is followed at once by one \<open>Acquire\<close>, and \<open>Acquire\<close> occurs nowhere else.
\<close>

definition lost_detected :: "di_call \<Rightarrow> bool" where
  "lost_detected call =
     (case call of
        GetDeviceData hr \<Rightarrow> state_lost hr
      | GetDeviceState hr \<Rightarrow> state_lost hr
      | _ \<Rightarrow> False)"

fun reacquire_after :: "bool \<Rightarrow> di_call list \<Rightarrow> bool" where
  "reacquire_after pending [] = (\<not> pending)"
| "reacquire_after pending (call # calls) =
     (if pending then call = Acquire \<and> reacquire_after False calls
      else call \<noteq> Acquire \<and> reacquire_after (lost_detected call) calls)"

definition reacquire_once :: "di_call list \<Rightarrow> bool" where
  "reacquire_once calls = reacquire_after False calls"

text \<open>What one frame of the browser build prints for the selected slot.\<close>

definition frame_line :: "('d \<Rightarrow> string) \<Rightarrow> int \<Rightarrow> 'd browser \<Rightarrow> string" where
  "frame_line axis_text selected b =
     (let state = GetGamepadState b selected in
      if axes state \<noteq> [] \<or> buttons state \<noteq> []
      then FormatGamepadState axis_text state @ NL else [])"

section \<open>Sample inputs\<close>

text \<open>
  Two connected XInput users (1 and 3), and DirectInput reporting a joystick and the
  proxy of an Xbox pad. 1167 is \<open>ERROR_DEVICE_NOT_CONNECTED\<close>.
\<close>

definition sample_providers :: providers where
  "sample_providers =
     \<lparr>XInputGetState_result = (\<lambda>i. if i = 1 \<or> i = 3 then 0 else 1167),
      DirectInput_devices =
        Some [\<lparr>guidInstance = 5, tszProductName = L ''Logitech Extreme 3D Pro'' @ [0]\<rparr>,
              \<lparr>guidInstance = 6, tszProductName = L ''Controller (XBOX 360 For Windows)'' @ [0]\<rparr>]\<rparr>"

text \<open>Browser answers, with \<open>int\<close> standing in for \<open>double\<close>: a pad with two buttons, the
  first one pressed, and an empty slot.\<close>

definition pad_connected :: "int EmscriptenGamepadEvent" where
  "pad_connected =
     \<lparr>ev_timestamp = 0, ev_numAxes = 0, ev_numButtons = 2, ev_axis = (\<lambda>i. 0),
      ev_analogButton = (\<lambda>i. 0), ev_digitalButton = (\<lambda>i. if i = 0 then 1 else 0),
      ev_connected = 1, ev_id = ''Pad'', ev_mapping = ''standard''\<rparr>"

definition pad_absent :: "int EmscriptenGamepadEvent" where
  "pad_absent =
     \<lparr>ev_timestamp = 0, ev_numAxes = 0, ev_numButtons = 0, ev_axis = (\<lambda>i. 0),
      ev_analogButton = (\<lambda>i. 0), ev_digitalButton = (\<lambda>i. 0),
      ev_connected = 0, ev_id = [], ev_mapping = []\<rparr>"

definition browser_two_pads :: "int browser" where
  "browser_two_pads =
     \<lparr>sample_gamepad_data = 2,
      get_gamepad_status = (\<lambda>i. if i = 0 \<or> i = 1 then (0, pad_connected) else (-5, pad_absent))\<rparr>"

definition browser_second_slot :: "int browser" where
  "browser_second_slot =
     \<lparr>sample_gamepad_data = 2,
      get_gamepad_status = (\<lambda>i. if i = 1 then (0, pad_connected) else (0, pad_absent))\<rparr>"

text \<open>Two XInput snapshots and a DirectInput state.\<close>

definition xstate_a :: XINPUT_STATE where
  "xstate_a = \<lparr>dwPacketNumber = 1,
               Gamepad = \<lparr>wButtons = 0x1005, bLeftTrigger = 7, bRightTrigger = 255,
                          sThumbLX = 0xFF85, sThumbLY = 0, sThumbRX = 32767, sThumbRY = 0x8000\<rparr>\<rparr>"

definition xstate_b :: XINPUT_STATE where
  "xstate_b = \<lparr>dwPacketNumber = 2,
               Gamepad = \<lparr>wButtons = 0, bLeftTrigger = 0, bRightTrigger = 0,
                          sThumbLX = 0, sThumbLY = 0, sThumbRX = 0, sThumbRY = 0\<rparr>\<rparr>"

definition js_sample :: DIJOYSTATE2 where
  "js_sample =
     \<lparr>lX = 1, lY = -1, lZ = 65535, lRx = 0, lRy = 0, lRz = 1234567,
      rglSlider = (\<lambda>i. 0),
      rgdwPOV = (\<lambda>i. if i = 0 then 9000 else 0xFFFFFFFF),
      rgbButtons = (\<lambda>i. if i = 2 then 0x80 else 1)\<rparr>"

text \<open>
  Scripts of a DirectInput device: a loss reported by the drain, a loss reported by the
  full-state read, a device that fails for good at a timeout, and a failing wait.
  \<open>DIERR_UNPLUGGED\<close>, \<open>WAIT_FAILED\<close> and \<open>DI_OK\<close> are the values of the platform headers.
\<close>

definition setup_ok :: di_setup where
  "setup_ok =
     \<lparr>DirectInput8Create_ok = True, CreateDevice_ok = True, CreateHiddenWindow_ok = True,
      SetDataFormat_ok = True, SetCooperativeLevel_ok = True, CreateEvent_ok = True,
      SetEventNotification_ok = True, Acquire_ok = True\<rparr>"

definition DIERR_UNPLUGGED :: HRESULT where "DIERR_UNPLUGGED = 0x80040209"
definition WAIT_FAILED :: DWORD where "WAIT_FAILED = 0xFFFFFFFF"
definition DI_OK :: HRESULT where "DI_OK = 0"

definition dev_drain_lost :: di_device where
  "dev_drain_lost =
     \<lparr>waits = [WAIT_OBJECT_0], datas = [(DIERR_INPUTLOST, 0), (DI_OK, 0)],
      states = [(DI_OK, js_sample)]\<rparr>"

definition dev_state_lost :: di_device where
  "dev_state_lost =
     \<lparr>waits = [WAIT_OBJECT_0, WAIT_TIMEOUT], datas = [(DI_OK, 0)],
      states = [(DIERR_NOTACQUIRED, js_sample), (DI_OK, js_sample)]\<rparr>"

definition dev_gone :: di_device where
  "dev_gone = \<lparr>waits = [WAIT_TIMEOUT], datas = [], states = [(DIERR_UNPLUGGED, js_sample)]\<rparr>"

definition dev_wait_failed :: di_device where
  "dev_wait_failed = \<lparr>waits = [WAIT_FAILED], datas = [], states = []\<rparr>"

text \<open>
  A process with two connected XInput users and no DirectInput, whose stop flag is already
  false at the first load; wide strings are converted code unit by code unit.
\<close>

definition ascii_of_wide :: "wstring \<Rightarrow> string" where
  "ascii_of_wide ws = map (\<lambda>c. char_of (unat c)) ws"

definition two_controllers :: platform where
  "two_controllers =
     \<lparr>present = \<lparr>XInputGetState_result = (\<lambda>i. if i = 0 \<or> i = 1 then 0 else 1167),
                 DirectInput_devices = None\<rparr>,
      WideCharToMultiByte = ascii_of_wide,
      hidden_window_created = True,
      g_Running_loads = [False],
      XInputGetState_reads = (\<lambda>u. []),
      dinput_setup = setup_ok,
      dinput_device = (\<lambda>g. \<lparr>waits = [], datas = [], states = []\<rparr>)\<rparr>"


text \<open>The invariant of the browser build's globals.\<close>

definition web_inv :: "web_state \<Rightarrow> bool" where
  "web_inv s = (g_streaming s \<longleftrightarrow> g_selectedGamepad s \<ge> 0)"

section \<open>Properties of the name filter\<close>

lemma wfind_None_iff: "wfind hay needle = None \<longleftrightarrow> \<not> is_substring needle hay"
proof (induction hay)
  case Nil
  show ?case by (auto simp: is_substring_def)
next
  case (Cons c cs)
  show ?case
  proof (cases "take (length needle) (c # cs) = needle")
    case True
    then have "c # cs = [] @ needle @ drop (length needle) (c # cs)"
      by (metis append_Nil append_take_drop_id)
    then have "is_substring needle (c # cs)"
      unfolding is_substring_def by blast
    with True show ?thesis by simp
  next
    case False
    have "is_substring needle (c # cs) \<longleftrightarrow> is_substring needle cs"
    proof
      assume "is_substring needle (c # cs)"
      then obtain p s where ps: "c # cs = p @ needle @ s"
        unfolding is_substring_def by blast
      show "is_substring needle cs"
      proof (cases p)
        case Nil
        with ps have "take (length needle) (c # cs) = needle" by simp
        with False show ?thesis by simp
      next
        case (Cons a p')
        with ps have "cs = p' @ needle @ s" by simp
        then show ?thesis unfolding is_substring_def by blast
      qed
    next
      assume "is_substring needle cs"
      then obtain p s where "cs = p @ needle @ s"
        unfolding is_substring_def by blast
      then have "c # cs = (c # p) @ needle @ s" by simp
      then show "is_substring needle (c # cs)"
        unfolding is_substring_def by blast
    qed
    with False Cons.IH show ?thesis by simp
  qed
qed

lemma IsLikelyXInputDuplicate_iff:
  "IsLikelyXInputDuplicate inst \<longleftrightarrow>
     is_substring (L ''xinput'') (case_folded (wstring_of_cstr (tszProductName inst)))
   \<or> is_substring (L ''(xbox'') (case_folded (wstring_of_cstr (tszProductName inst)))
   \<or> is_substring (L ''ig_'') (case_folded (wstring_of_cstr (tszProductName inst)))"
  by (simp add: IsLikelyXInputDuplicate_def Let_def wfind_None_iff case_folded_def)

section \<open>Stream output\<close>

lemma appends_only_put_str [simp]: "appends_only (put_str s)"
  by (simp add: appends_only_def put_str_def)

lemma appends_only_put_char [simp]: "appends_only (put_char c)"
  by (simp add: appends_only_def put_char_def put_str_def)

lemma appends_only_put_int [simp]: "appends_only (put_int i)"
  by (simp add: appends_only_def put_int_def put_str_def)

lemma appends_only_put_unsigned [simp]: "appends_only (put_unsigned n)"
  by (simp add: appends_only_def put_unsigned_def put_str_def)

lemma appends_only_manip [simp]:
  "appends_only (setw n)" "appends_only (setfill c)" "appends_only hex" "appends_only dec"
  by (simp_all add: appends_only_def setw_def setfill_def hex_def dec_def)

lemma appends_only_comp:
  assumes "appends_only f" and "appends_only g"
  shows "appends_only (\<lambda>os. g (f os))"
  unfolding appends_only_def
proof (intro allI)
  fix os pre
  have "g (f (os\<lparr>os_text := pre @ os_text os\<rparr>)) = g ((f os)\<lparr>os_text := pre @ os_text (f os)\<rparr>)"
    using assms(1) by (simp only: appends_only_def)
  also have "\<dots> = (g (f os))\<lparr>os_text := pre @ os_text (g (f os))\<rparr>"
    using assms(2) by (simp only: appends_only_def)
  finally show "g (f (os\<lparr>os_text := pre @ os_text os\<rparr>))
                  = (g (f os))\<lparr>os_text := pre @ os_text (g (f os))\<rparr>" .
qed

lemma appends_only_id: "appends_only (\<lambda>os. os)"
  by (simp add: appends_only_def)

lemma appends_only_chain: "(\<forall>f \<in> set fs. appends_only f) \<Longrightarrow> appends_only (chain fs)"
proof (induction fs)
  case Nil
  have "chain [] = (\<lambda>os. os)" by (simp add: chain_def fun_eq_iff)
  then show ?case by (simp add: appends_only_id)
next
  case (Cons f fs)
  have "chain (f # fs) = (\<lambda>os. chain fs (f os))" by (simp add: chain_def fun_eq_iff)
  moreover have "appends_only (\<lambda>os. chain fs (f os))"
    using Cons by (intro appends_only_comp [where f = f and g = "chain fs"]) simp_all
  ultimately show ?case by simp
qed

lemma appends_only_foldl:
  "(\<And>i. appends_only (\<lambda>os. step os i)) \<Longrightarrow> appends_only (\<lambda>os. foldl step os xs)"
proof (induction xs rule: rev_induct)
  case Nil
  show ?case by (simp add: appends_only_id)
next
  case (snoc x xs)
  have "appends_only (\<lambda>os. step (foldl step os xs) x)"
    using snoc
    by (intro appends_only_comp [where g = "\<lambda>os. step os x" and f = "\<lambda>os. foldl step os xs"])
       simp_all
  then show ?case by simp
qed

lemma appends_only_default:
  assumes f: "appends_only f" and os: "default_fmt os" and d: "default_fmt (f ostream_init)"
  shows "f os = os\<lparr>os_text := os_text os @ os_text (f ostream_init)\<rparr>"
proof -
  have "os = ostream_init\<lparr>os_text := os_text os @ os_text ostream_init\<rparr>"
    using os by (simp add: default_fmt_def ostream_init_def)
  then have "f os = f (ostream_init\<lparr>os_text := os_text os @ os_text ostream_init\<rparr>)"
    by simp
  also have "\<dots> = (f ostream_init)\<lparr>os_text := os_text os @ os_text (f ostream_init)\<rparr>"
    using f by (simp only: appends_only_def)
  also have "\<dots> = os\<lparr>os_text := os_text os @ os_text (f ostream_init)\<rparr>"
    using os d by (simp add: default_fmt_def)
  finally show ?thesis .
qed

lemma fmt_put_str [simp]:
  "os_hex (put_str s os) = os_hex os" "os_fill (put_str s os) = os_fill os"
  "os_width (put_str s os) = 0"
  by (simp_all add: put_str_def)

lemma fmt_put_char [simp]:
  "os_hex (put_char c os) = os_hex os" "os_fill (put_char c os) = os_fill os"
  "os_width (put_char c os) = 0"
  by (simp_all add: put_char_def)

lemma fmt_put_int [simp]:
  "os_hex (put_int i os) = os_hex os" "os_fill (put_int i os) = os_fill os"
  "os_width (put_int i os) = 0"
  by (simp_all add: put_int_def)

lemma fmt_put_unsigned [simp]:
  "os_hex (put_unsigned n os) = os_hex os" "os_fill (put_unsigned n os) = os_fill os"
  "os_width (put_unsigned n os) = 0"
  by (simp_all add: put_unsigned_def)

lemma fmt_manip [simp]:
  "os_hex (setw n os) = os_hex os" "os_fill (setw n os) = os_fill os" "os_width (setw n os) = n"
  "os_hex (setfill c os) = os_hex os" "os_fill (setfill c os) = c" "os_width (setfill c os) = os_width os"
  "os_hex (hex os) = True" "os_fill (hex os) = os_fill os" "os_width (hex os) = os_width os"
  "os_hex (dec os) = False" "os_fill (dec os) = os_fill os" "os_width (dec os) = os_width os"
  by (simp_all add: setw_def setfill_def hex_def dec_def)

lemma chain_Nil [simp]: "chain [] os = os"
  by (simp add: chain_def)

lemma chain_Cons [simp]: "chain (f # fs) os = chain fs (f os)"
  by (simp add: chain_def)

lemma default_fmt_init [simp]: "default_fmt ostream_init"
  by (simp add: default_fmt_def ostream_init_def)

lemma appends_only_PrintXInputState: "appends_only (PrintXInputState s)"
  unfolding PrintXInputState_def Let_def
  by (rule appends_only_chain) simp

lemma default_fmt_PrintXInputState: "default_fmt os \<Longrightarrow> default_fmt (PrintXInputState s os)"
  by (simp add: PrintXInputState_def Let_def default_fmt_def)

lemma PrintXInputState_appends:
  "default_fmt os \<Longrightarrow> PrintXInputState s os = os\<lparr>os_text := os_text os @ XInputLine s\<rparr>"
  unfolding XInputLine_def
  by (rule appends_only_default [OF appends_only_PrintXInputState])
     (simp_all add: default_fmt_PrintXInputState)

lemma default_fmt_print_pov: "default_fmt os \<Longrightarrow> default_fmt (print_pov js os i)"
  by (simp add: print_pov_def Let_def default_fmt_def)

lemma default_fmt_print_button: "default_fmt os \<Longrightarrow> default_fmt (print_button js os i)"
  by (simp add: print_button_def default_fmt_def)

lemma default_fmt_foldl:
  "(\<And>os i. default_fmt os \<Longrightarrow> default_fmt (step os i)) \<Longrightarrow> default_fmt os
   \<Longrightarrow> default_fmt (foldl step os xs)"
  by (induction xs arbitrary: os) simp_all

lemma default_fmt_put_str: "default_fmt os \<Longrightarrow> default_fmt (put_str s os)"
  by (simp add: default_fmt_def)

lemma default_fmt_PrintDIState: "default_fmt os \<Longrightarrow> default_fmt (PrintDIState js os)"
  unfolding PrintDIState_def Let_def
  by (intro default_fmt_put_str default_fmt_foldl default_fmt_print_pov default_fmt_print_button)
     (simp_all add: default_fmt_def)

lemma appends_only_print_pov: "appends_only (\<lambda>os. print_pov js os i)"
proof -
  have "(\<lambda>os. print_pov js os i)
          = (if rgdwPOV js i = 0xFFFFFFFF then put_str ''---- ''
             else chain [setw 4, put_unsigned (unat (rgdwPOV js i)), put_str '' ''])"
    by (simp add: print_pov_def Let_def fun_eq_iff)
  moreover have "appends_only (chain [setw 4, put_unsigned (unat (rgdwPOV js i)), put_str '' ''])"
    by (rule appends_only_chain) simp
  ultimately show ?thesis by simp
qed

lemma appends_only_print_button: "appends_only (\<lambda>os. print_button js os i)"
  by (simp add: print_button_def)

lemma appends_only_pov_loop: "appends_only (\<lambda>os. foldl (print_pov js) os xs)"
  by (rule appends_only_foldl) (rule appends_only_print_pov)

lemma appends_only_button_loop: "appends_only (\<lambda>os. foldl (print_button js) os xs)"
  by (rule appends_only_foldl) (rule appends_only_print_button)

lemma PrintDIState_as_chain:
  "PrintDIState js os =
     chain [chain
            [put_str ''AXES: '',
             put_str ''lX='', setw 6, put_int (sint (lX js)), put_str '' '',
             put_str ''lY='', setw 6, put_int (sint (lY js)), put_str '' '',
             put_str ''lZ='', setw 6, put_int (sint (lZ js)), put_str '' '',
             put_str ''lRx='', setw 6, put_int (sint (lRx js)), put_str '' '',
             put_str ''lRy='', setw 6, put_int (sint (lRy js)), put_str '' '',
             put_str ''lRz='', setw 6, put_int (sint (lRz js)), put_str '' '',
             put_str ''S0='', setw 6, put_int (sint (rglSlider js 0)), put_str '' '',
             put_str ''S1='', setw 6, put_int (sint (rglSlider js 1)), put_str '' | ''],
            put_str ''POV: '',
            (\<lambda>os. foldl (print_pov js) os [0..<4]),
            put_str ''| BTN: '',
            (\<lambda>os. foldl (print_button js) os [0..<32]),
            put_str NL] os"
  unfolding PrintDIState_def Let_def
  by (simp only: chain_Cons chain_Nil)

lemma appends_only_PrintDIState: "appends_only (PrintDIState js)"
proof -
  have axes: "appends_only (chain
            [put_str ''AXES: '',
             put_str ''lX='', setw 6, put_int (sint (lX js)), put_str '' '',
             put_str ''lY='', setw 6, put_int (sint (lY js)), put_str '' '',
             put_str ''lZ='', setw 6, put_int (sint (lZ js)), put_str '' '',
             put_str ''lRx='', setw 6, put_int (sint (lRx js)), put_str '' '',
             put_str ''lRy='', setw 6, put_int (sint (lRy js)), put_str '' '',
             put_str ''lRz='', setw 6, put_int (sint (lRz js)), put_str '' '',
             put_str ''S0='', setw 6, put_int (sint (rglSlider js 0)), put_str '' '',
             put_str ''S1='', setw 6, put_int (sint (rglSlider js 1)), put_str '' | ''])"
    by (rule appends_only_chain) simp
  have "appends_only (chain [chain
            [put_str ''AXES: '',
             put_str ''lX='', setw 6, put_int (sint (lX js)), put_str '' '',
             put_str ''lY='', setw 6, put_int (sint (lY js)), put_str '' '',
             put_str ''lZ='', setw 6, put_int (sint (lZ js)), put_str '' '',
             put_str ''lRx='', setw 6, put_int (sint (lRx js)), put_str '' '',
             put_str ''lRy='', setw 6, put_int (sint (lRy js)), put_str '' '',
             put_str ''lRz='', setw 6, put_int (sint (lRz js)), put_str '' '',
             put_str ''S0='', setw 6, put_int (sint (rglSlider js 0)), put_str '' '',
             put_str ''S1='', setw 6, put_int (sint (rglSlider js 1)), put_str '' | ''],
            put_str ''POV: '',
            (\<lambda>os. foldl (print_pov js) os [0..<4]),
            put_str ''| BTN: '',
            (\<lambda>os. foldl (print_button js) os [0..<32]),
            put_str NL])"
    by (rule appends_only_chain)
       (simp only: set_simps ball_simps axes appends_only_put_str appends_only_pov_loop
                   appends_only_button_loop simp_thms)
  moreover have "PrintDIState js = chain [chain
            [put_str ''AXES: '',
             put_str ''lX='', setw 6, put_int (sint (lX js)), put_str '' '',
             put_str ''lY='', setw 6, put_int (sint (lY js)), put_str '' '',
             put_str ''lZ='', setw 6, put_int (sint (lZ js)), put_str '' '',
             put_str ''lRx='', setw 6, put_int (sint (lRx js)), put_str '' '',
             put_str ''lRy='', setw 6, put_int (sint (lRy js)), put_str '' '',
             put_str ''lRz='', setw 6, put_int (sint (lRz js)), put_str '' '',
             put_str ''S0='', setw 6, put_int (sint (rglSlider js 0)), put_str '' '',
             put_str ''S1='', setw 6, put_int (sint (rglSlider js 1)), put_str '' | ''],
            put_str ''POV: '',
            (\<lambda>os. foldl (print_pov js) os [0..<4]),
            put_str ''| BTN: '',
            (\<lambda>os. foldl (print_button js) os [0..<32]),
            put_str NL]"
    by (rule ext) (rule PrintDIState_as_chain)
  ultimately show ?thesis by (simp only:)
qed

lemma PrintDIState_appends:
  "default_fmt os \<Longrightarrow> PrintDIState js os = os\<lparr>os_text := os_text os @ DILine js\<rparr>"
  unfolding DILine_def
  by (rule appends_only_default [OF appends_only_PrintDIState])
     (simp_all add: default_fmt_PrintDIState)

section \<open>The catalog\<close>

lemma assign_index_prefix:
  "n \<le> length ds \<Longrightarrow>
   foldl assign_index ds [0..<n] = map (\<lambda>i. (ds ! i)\<lparr>index := int i\<rparr>) [0..<n] @ drop n ds"
proof (induction n)
  case 0
  show ?case by simp
next
  case (Suc n)
  then have n: "n < length ds" by simp
  let ?A = "map (\<lambda>i. (ds ! i)\<lparr>index := int i\<rparr>) [0..<n]"
  have prev: "foldl assign_index ds [0..<n] = ?A @ drop n ds"
    using Suc by simp
  have lenA: "length ?A = n" by simp
  have nth: "(?A @ drop n ds) ! n = ds ! n"
    using n by (simp add: nth_append)
  have "(?A @ drop n ds)[n := (ds ! n)\<lparr>index := int n\<rparr>]
        = ?A @ (drop n ds)[0 := (ds ! n)\<lparr>index := int n\<rparr>]"
    by (simp add: list_update_append)
  also have "(drop n ds)[0 := (ds ! n)\<lparr>index := int n\<rparr>]
        = (ds ! n)\<lparr>index := int n\<rparr> # drop (Suc n) ds"
    using n by (simp add: Cons_nth_drop_Suc [symmetric])
  finally have upd: "(?A @ drop n ds)[n := (ds ! n)\<lparr>index := int n\<rparr>]
        = ?A @ (ds ! n)\<lparr>index := int n\<rparr> # drop (Suc n) ds" .
  have "foldl assign_index ds [0..<Suc n] = assign_index (foldl assign_index ds [0..<n]) n"
    by simp
  also have "\<dots> = (?A @ drop n ds)[n := ((?A @ drop n ds) ! n)\<lparr>index := int n\<rparr>]"
    by (simp only: prev assign_index_def)
  also have "\<dots> = ?A @ (ds ! n)\<lparr>index := int n\<rparr> # drop (Suc n) ds"
    by (simp only: nth upd)
  finally show ?case by simp
qed

lemma assign_index_all:
  "foldl assign_index ds [0..<length ds] = map (\<lambda>i. (ds ! i)\<lparr>index := int i\<rparr>) [0..<length ds]"
  using assign_index_prefix [of "length ds" ds] by simp

lemma index_assign_index_all:
  "map index (foldl assign_index ds [0..<length ds]) = map int [0..<length ds]"
  by (simp add: assign_index_all comp_def)

lemma length_assign_index_all: "length (foldl assign_index ds [0..<length ds]) = length ds"
  by (simp add: assign_index_all)

lemma length_xinput_probe:
  "length (foldl (xinput_probe p) acc slots) = length acc + length (filter (IsXInputConnected p) slots)"
  by (induction slots arbitrary: acc) (simp_all add: xinput_probe_def)

lemma length_callbacks:
  "length (foldl (\<lambda>out inst. EnumDIEnumDevicesCallback inst out) acc insts)
     = length acc + length (filter (\<lambda>inst. \<not> IsLikelyXInputDuplicate inst) insts)"
  by (induction insts arbitrary: acc) (simp_all add: EnumDIEnumDevicesCallback_def)

lemma EnumerateDevices_unfold:
  "EnumerateDevices p =
     foldl assign_index (merged_devices p) [0..<length (merged_devices p)]"
  by (simp only: EnumerateDevices_def Let_def merged_devices_def)

lemma length_merged_devices:
  "length (merged_devices p)
     = length (filter (IsXInputConnected p) [0, 1, 2, 3])
       + (case DirectInput_devices p of
            None \<Rightarrow> 0
          | Some insts \<Rightarrow> length (filter (\<lambda>inst. \<not> IsLikelyXInputDuplicate inst) insts))"
proof -
  have xi: "length (foldl (xinput_probe p) [] [0, 1, 2, 3])
              = length (filter (IsXInputConnected p) [0, 1, 2, 3])"
    by (subst length_xinput_probe) simp
  show ?thesis
  proof (cases "DirectInput_devices p")
    case None
    then have "merged_devices p = foldl (xinput_probe p) [] [0, 1, 2, 3]"
      by (simp only: merged_devices_def option.case)
    with None xi show ?thesis by (simp only: option.case add_0_right)
  next
    case (Some insts)
    then have "merged_devices p
        = foldl (\<lambda>out inst. EnumDIEnumDevicesCallback inst out)
            (foldl (xinput_probe p) [] [0, 1, 2, 3]) insts"
      by (simp only: merged_devices_def option.case)
    with Some xi show ?thesis by (simp only: option.case length_callbacks)
  qed
qed

lemma EnumerateDevices_indices:
  "map index (EnumerateDevices p) = map int [0..<length (EnumerateDevices p)]"
  by (simp only: EnumerateDevices_unfold index_assign_index_all length_assign_index_all)

lemma EnumerateDevices_length:
  "length (EnumerateDevices p)
     = length (filter (IsXInputConnected p) [0, 1, 2, 3])
       + (case DirectInput_devices p of
            None \<Rightarrow> 0
          | Some insts \<Rightarrow> length (filter (\<lambda>inst. \<not> IsLikelyXInputDuplicate inst) insts))"
  unfolding EnumerateDevices_unfold length_assign_index_all
  by (rule length_merged_devices)

lemma probe_gamepad_indices:
  "map info_index (foldl (probe_gamepad b) acc slots)
     = map info_index acc @ map int (filter (slot_connected b) slots)"
  by (induction slots arbitrary: acc)
     (simp_all add: probe_gamepad_def slot_connected_def split: prod.split)

lemma UpdateGamepadList_indices:
  "map info_index (g_gamepads (UpdateGamepadList b s))
     = map int (filter (slot_connected b) [0..<nat (sample_gamepad_data b)])"
  by (simp add: UpdateGamepadList_def Let_def probe_gamepad_indices)

text \<open>
  The native catalog: the indices are exactly 0..N-1, and N counts the connected XInput
  users among the four probed plus the DirectInput devices that pass the name filter.
\<close>

lemma EnumerateDevices_catalog:
  "map index (EnumerateDevices p) = map int [0..<length (EnumerateDevices p)]
   \<and> distinct (map index (EnumerateDevices p))
   \<and> length (EnumerateDevices p)
       = length (filter (IsXInputConnected p) [0, 1, 2, 3])
         + (case DirectInput_devices p of
              None \<Rightarrow> 0
            | Some insts \<Rightarrow> length (filter (\<lambda>inst. \<not> IsLikelyXInputDuplicate inst) insts))"
proof -
  have "distinct (map int [0..<length (EnumerateDevices p)])"
    by (simp add: distinct_map inj_on_def)
  then show ?thesis
    using EnumerateDevices_indices [of p] EnumerateDevices_length [of p] by simp
qed

lemma second_slot_catalog:
  "g_gamepads (UpdateGamepadList browser_second_slot s)
     = [\<lparr>info_index = 1, info_id = ''Pad'', info_mapping = ''standard'', info_connected = True,
         info_numButtons = 2, info_numAxes = 0\<rparr>]"
  by (simp add: UpdateGamepadList_def browser_second_slot_def probe_gamepad_def
                pad_connected_def pad_absent_def EMSCRIPTEN_RESULT_SUCCESS_def
                numeral_2_eq_2)

lemma second_slot_update:
  "UpdateGamepadList browser_second_slot s
     = s\<lparr>g_gamepads :=
           [\<lparr>info_index = 1, info_id = ''Pad'', info_mapping = ''standard'', info_connected = True,
             info_numButtons = 2, info_numAxes = 0\<rparr>]\<rparr>"
  by (simp add: UpdateGamepadList_def browser_second_slot_def probe_gamepad_def
                pad_connected_def pad_absent_def EMSCRIPTEN_RESULT_SUCCESS_def
                numeral_2_eq_2)

text \<open>
  C1: the indices of a catalog are to be exactly 0..N-1, as the native \<open>EnumerateDevices\<close>
  assigns them and as \<open>StartStreaming\<close> of the browser build expects when it checks its
  argument against the size of the list and indexes the list with it. \<open>UpdateGamepadList\<close>
  stores the browser's slot number instead: with slot 0 empty and slot 1 connected the
  one-entry catalog is listed under index 1, \<open>StartStreaming 1\<close> is refused, and
  \<open>StartStreaming 0\<close> is accepted but then reads the empty slot 0 and prints nothing.
\<close>

theorem C1_web_listed_index_refused:
  "map info_index (g_gamepads (UpdateGamepadList browser_second_slot web_init)) = [1]
   \<and> ListGamepads browser_second_slot web_init
       = (1, \<lparr>g_gamepads = [\<lparr>info_index = 1, info_id = ''Pad'', info_mapping = ''standard'',
                               info_connected = True, info_numButtons = 2, info_numAxes = 0\<rparr>],
               g_streaming = False, g_selectedGamepad = -1,
               web_cout = ''Available gamepads:'' @ NL
                          @ ''  [1] Pad (standard) Buttons: 2 Axes: 0'' @ NL\<rparr>)
   \<and> fst (StartStreaming browser_second_slot 1 web_init) = 0
   \<and> g_streaming (snd (StartStreaming browser_second_slot 1 web_init)) = False
   \<and> fst (StartStreaming browser_second_slot 0 web_init) = 1
   \<and> g_selectedGamepad (snd (StartStreaming browser_second_slot 0 web_init)) = 0
   \<and> axes (GetGamepadState browser_second_slot 0) = []
   \<and> buttons (GetGamepadState browser_second_slot 0) = []
   \<and> UpdateGamepadState show_int browser_second_slot
         (snd (StartStreaming browser_second_slot 0 web_init))
       = snd (StartStreaming browser_second_slot 0 web_init)"
proof -
  have empty: "axes (GetGamepadState browser_second_slot 0) = []"
      "buttons (GetGamepadState browser_second_slot 0) = []"
    by (simp_all add: GetGamepadState_def browser_second_slot_def pad_absent_def
          EMSCRIPTEN_RESULT_SUCCESS_def)
  have started: "g_streaming (snd (StartStreaming browser_second_slot 0 web_init))"
      "g_selectedGamepad (snd (StartStreaming browser_second_slot 0 web_init)) = 0"
    by (simp_all add: StartStreaming_def Let_def second_slot_catalog)
  have list: "ListGamepads browser_second_slot web_init
       = (1, \<lparr>g_gamepads = [\<lparr>info_index = 1, info_id = ''Pad'', info_mapping = ''standard'',
                               info_connected = True, info_numButtons = 2, info_numAxes = 0\<rparr>],
               g_streaming = False, g_selectedGamepad = -1,
               web_cout = ''Available gamepads:'' @ NL
                          @ ''  [1] Pad (standard) Buttons: 2 Axes: 0'' @ NL\<rparr>)"
    by (simp add: ListGamepads_def Let_def second_slot_update web_init_def print_gamepad_def
          to_string_def show_int_def digit_char_def show_nat.simps)
  have frame: "UpdateGamepadState show_int browser_second_slot
         (snd (StartStreaming browser_second_slot 0 web_init))
       = snd (StartStreaming browser_second_slot 0 web_init)"
    by (simp add: UpdateGamepadState_def Let_def started empty)
  have refused: "fst (StartStreaming browser_second_slot 1 web_init) = 0"
      "g_streaming (snd (StartStreaming browser_second_slot 1 web_init)) = False"
    by (simp_all add: StartStreaming_def Let_def second_slot_update web_init_def)
  have accepted: "fst (StartStreaming browser_second_slot 0 web_init) = 1"
    by (simp add: StartStreaming_def Let_def second_slot_update web_init_def)
  show ?thesis
    by (simp add: list frame empty started second_slot_catalog refused accepted)
qed

theorem C1_web_listed_index_refused_witness:
  "web_cout (UpdateGamepadState show_int browser_second_slot
         (snd (StartStreaming browser_second_slot 0 web_init)))
     = web_cout (snd (StartStreaming browser_second_slot 0 web_init))
   \<and> fst (ListGamepads browser_second_slot web_init) = 1
   \<and> fst (StartStreaming browser_second_slot 1 web_init) = 0"
  using C1_web_listed_index_refused by simp

text \<open>
  C2: the duplicate filter excludes a device exactly when its case-folded name contains
  "xinput", "(xbox" or "ig_" as a substring; "Xbox 360 Controller (XInput STANDARD GAMEPAD)"
  is excluded and "Logitech Extreme 3D Pro" is retained.
\<close>

theorem C2_name_filter:
  "(IsLikelyXInputDuplicate inst \<longleftrightarrow>
      is_substring (L ''xinput'') (case_folded (wstring_of_cstr (tszProductName inst)))
    \<or> is_substring (L ''(xbox'') (case_folded (wstring_of_cstr (tszProductName inst)))
    \<or> is_substring (L ''ig_'') (case_folded (wstring_of_cstr (tszProductName inst))))
   \<and> IsLikelyXInputDuplicate
        \<lparr>guidInstance = g,
         tszProductName = L ''Xbox 360 Controller (XInput STANDARD GAMEPAD)'' @ [0]\<rparr>
   \<and> \<not> IsLikelyXInputDuplicate
        \<lparr>guidInstance = g, tszProductName = L ''Logitech Extreme 3D Pro'' @ [0]\<rparr>"
proof (intro conjI)
  show "IsLikelyXInputDuplicate inst \<longleftrightarrow>
      is_substring (L ''xinput'') (case_folded (wstring_of_cstr (tszProductName inst)))
    \<or> is_substring (L ''(xbox'') (case_folded (wstring_of_cstr (tszProductName inst)))
    \<or> is_substring (L ''ig_'') (case_folded (wstring_of_cstr (tszProductName inst)))"
    by (rule IsLikelyXInputDuplicate_iff)
  show "IsLikelyXInputDuplicate
        \<lparr>guidInstance = g,
         tszProductName = L ''Xbox 360 Controller (XInput STANDARD GAMEPAD)'' @ [0]\<rparr>"
    by code_simp
  show "\<not> IsLikelyXInputDuplicate
        \<lparr>guidInstance = g, tszProductName = L ''Logitech Extreme 3D Pro'' @ [0]\<rparr>"
    by code_simp
qed

theorem C2_name_filter_witness:
  "IsLikelyXInputDuplicate \<lparr>guidInstance = 7, tszProductName = L ''HID Gamepad IG_01'' @ [0]\<rparr>
   \<and> (is_substring (L ''xinput'')
         (case_folded (wstring_of_cstr
            (tszProductName \<lparr>guidInstance = 7, tszProductName = L ''HID Gamepad IG_01'' @ [0]\<rparr>)))
      \<or> is_substring (L ''(xbox'')
         (case_folded (wstring_of_cstr
            (tszProductName \<lparr>guidInstance = 7, tszProductName = L ''HID Gamepad IG_01'' @ [0]\<rparr>)))
      \<or> is_substring (L ''ig_'')
         (case_folded (wstring_of_cstr
            (tszProductName \<lparr>guidInstance = 7, tszProductName = L ''HID Gamepad IG_01'' @ [0]\<rparr>))))"
proof -
  have dup: "IsLikelyXInputDuplicate
               \<lparr>guidInstance = 7, tszProductName = L ''HID Gamepad IG_01'' @ [0]\<rparr>"
    by code_simp
  from dup C2_name_filter [of "\<lparr>guidInstance = 7, tszProductName = L ''HID Gamepad IG_01'' @ [0]\<rparr>" 0]
  show ?thesis by blast
qed

section \<open>The polled reader and the formatters\<close>

lemma foldl_append_concat: "foldl (\<lambda>r i. r @ g i) r xs = r @ concat (map g xs)"
  by (induction xs arbitrary: r) simp_all

lemma FormatGamepadState_closed:
  "FormatGamepadState axis_text state =
     ''Gamepad '' @ to_string (state_index state) @ '': '' @ ''AXES: ''
     @ concat (map (\<lambda>i. ''A'' @ to_string (int i) @ ''='' @ axis_text (axes state ! i) @ '' '')
                 [0..<length (axes state)])
     @ ''| BUTTONS: ''
     @ map (\<lambda>b. if b then CHR ''1'' else CHR ''0'') (buttons state)"
proof -
  have "concat (map (\<lambda>i. if buttons state ! i then ''1'' else ''0'') [0..<length (buttons state)])
          = map (\<lambda>i. if buttons state ! i then CHR ''1'' else CHR ''0'') [0..<length (buttons state)]"
  proof -
    have "(\<lambda>i. if buttons state ! i then ''1'' else ''0'')
            = (\<lambda>i. [if buttons state ! i then CHR ''1'' else CHR ''0''])"
      by (simp add: fun_eq_iff)
    then show ?thesis by (simp only: concat_map_singleton)
  qed
  also have "\<dots> = map (\<lambda>b. if b then CHR ''1'' else CHR ''0'')
                      (map ((!) (buttons state)) [0..<length (buttons state)])"
    by (simp only: map_map comp_def)
  also have "\<dots> = map (\<lambda>b. if b then CHR ''1'' else CHR ''0'') (buttons state)"
    by (simp only: map_nth)
  finally show ?thesis
    by (simp add: FormatGamepadState_def Let_def foldl_append_concat)
qed

lemma xinput_changed_eq:
  "default_fmt (cout c) \<Longrightarrow>
   xinput_changed lp st c =
     (dwPacketNumber st,
      c\<lparr>cout := (cout c)\<lparr>os_text := os_text (cout c)
                  @ (if dwPacketNumber st = lp then [] else XInputLine st)\<rparr>\<rparr>)"
  by (simp add: xinput_changed_def to_cout_def PrintXInputState_appends)

lemma polled_reads_Nil [simp]: "polled_reads start [] = start"
  by (simp add: polled_reads_def)

lemma polled_reads_Cons [simp]:
  "polled_reads (lp, c) (st # sts) = polled_reads (xinput_changed lp st c) sts"
  by (simp add: polled_reads_def)

lemma RunXInputLoop_reads:
  "RunXInputLoop (replicate (length sts) True @ rs) (map (Pair ERROR_SUCCESS) sts @ rest) lp c
     = (case polled_reads (lp, c) sts of (lp', c') \<Rightarrow> RunXInputLoop rs rest lp' c')"
proof (induction sts arbitrary: lp c)
  case Nil
  show ?case by simp
next
  case (Cons st sts)
  obtain lp1 c1 where step: "xinput_changed lp st c = (lp1, c1)"
    by (cases "xinput_changed lp st c")
  show ?case using Cons [of lp1 c1] by (simp add: step)
qed

lemma polled_reads_output:
  "default_fmt (cout c) \<Longrightarrow>
   polled_reads (lp, c) sts =
     (last (lp # map dwPacketNumber sts),
      c\<lparr>cout := (cout c)\<lparr>os_text := os_text (cout c) @ polled_output lp sts\<rparr>\<rparr>)"
proof (induction sts arbitrary: lp c)
  case Nil
  show ?case by simp
next
  case (Cons st sts)
  let ?c1 = "c\<lparr>cout := (cout c)\<lparr>os_text := os_text (cout c)
                  @ (if dwPacketNumber st = lp then [] else XInputLine st)\<rparr>\<rparr>"
  have d: "default_fmt (cout ?c1)"
    using Cons.prems by (simp add: default_fmt_def)
  show ?case
    using Cons.IH [OF d, of "dwPacketNumber st"] Cons.prems
    by (simp add: xinput_changed_eq)
qed

lemma polled_output_append:
  "polled_output lp (xs @ ys) = polled_output lp xs @ polled_output (last (lp # map dwPacketNumber xs)) ys"
  by (induction xs arbitrary: lp) simp_all

lemma default_fmt_banner: "default_fmt (cout c) \<Longrightarrow> default_fmt (cout (reader_banner u c))"
  by (simp add: reader_banner_def to_cout_def default_fmt_def)

lemma RunXInputReader_banner:
  "RunXInputReader running reads u c = RunXInputLoop running reads 0 (reader_banner u c)"
  by (simp add: RunXInputReader_def reader_banner_def)

lemma RunXInputLoop_codes:
  "fst (RunXInputLoop rs reads lp c) = Some rc \<Longrightarrow>
     (rc = 0 \<and> False \<in> set rs) \<or> (rc = 1 \<and> (\<exists>r \<in> set reads. fst r \<noteq> ERROR_SUCCESS))"
proof (induction rs reads lp c rule: RunXInputLoop.induct)
  case (1 reads lastPacket c)
  then show ?case by simp
next
  case (2 running rs reads lastPacket c)
  show ?case
  proof (cases "running")
    case False
    with "2.prems" show ?thesis by simp
  next
    case True
    show ?thesis
    proof (cases reads)
      case Nil
      with True "2.prems" show ?thesis by simp
    next
      case (Cons r reads')
      obtain res st where r: "r = (res, st)" by (cases r)
      show ?thesis
      proof (cases "res = ERROR_SUCCESS")
        case False
        with True Cons r "2.prems" show ?thesis by auto
      next
        case ok: True
        obtain lp1 c1 where step: "xinput_changed lastPacket st c = (lp1, c1)"
          by (cases "xinput_changed lastPacket st c")
        from "2.prems" True Cons r ok step
        have "fst (RunXInputLoop rs reads' lp1 c1) = Some rc" by simp
        from "2.IH" [OF _ Cons _ _ step [symmetric] this] True r ok
        show ?thesis using Cons r by auto
      qed
    qed
  qed
qed


section \<open>Evaluation on numerals\<close>

lemmas put_defs = put_str_def put_char_def put_int_def put_unsigned_def setw_def setfill_def
  hex_def dec_def ostream_init_def show_int_def digit_char_def NL_def

lemma show_nat_numeral [simp]:
  "show_nat (numeral k) =
     (if (numeral k :: nat) < 10 then [digit_char (numeral k)]
      else show_nat (numeral k div 10) @ [digit_char (numeral k mod 10)])"
  by (rule show_nat.simps)

lemma show_nat_0 [simp]: "show_nat 0 = ''0''"
  by (simp add: show_nat.simps digit_char_def)

lemma show_nat_1 [simp]: "show_nat (Suc 0) = ''1''"
  by (simp add: show_nat.simps digit_char_def)

lemma show_hex_numeral [simp]:
  "show_hex (numeral k) =
     (if (numeral k :: nat) < 16 then [digit_char (numeral k)]
      else show_hex (numeral k div 16) @ [digit_char (numeral k mod 16)])"
  by (rule show_hex.simps)

lemma show_hex_0 [simp]: "show_hex 0 = ''0''"
  by (simp add: show_hex.simps digit_char_def)

lemma show_hex_1 [simp]: "show_hex (Suc 0) = ''1''"
  by (simp add: show_hex.simps digit_char_def)

lemma replicate_numeral_Cons [simp]:
  "replicate (numeral k) x = x # replicate (pred_numeral k) x"
  by (simp add: numeral_eq_Suc)

text \<open>
  C9: the formatters are functions of the snapshot alone. On a stream in its default
  formatting state \<open>PrintXInputState\<close> and \<open>PrintDIState\<close> append a line that depends only
  on the snapshot and leave the formatting state as they found it, so two calls on the
  same snapshot write the same line; \<open>FormatGamepadState\<close> returns a string computed from
  its argument only, and for a snapshot with no axes and no buttons it returns the
  well-formed line with both lists empty.
\<close>

theorem C9_formatters_pure:
  "(default_fmt os \<longrightarrow> PrintXInputState s os = os\<lparr>os_text := os_text os @ XInputLine s\<rparr>)
   \<and> (default_fmt os \<longrightarrow> PrintDIState js os = os\<lparr>os_text := os_text os @ DILine js\<rparr>)
   \<and> FormatGamepadState axis_text state =
       ''Gamepad '' @ to_string (state_index state) @ '': '' @ ''AXES: ''
       @ concat (map (\<lambda>i. ''A'' @ to_string (int i) @ ''='' @ axis_text (axes state ! i) @ '' '')
                   [0..<length (axes state)])
       @ ''| BUTTONS: ''
       @ map (\<lambda>b. if b then CHR ''1'' else CHR ''0'') (buttons state)
   \<and> FormatGamepadState axis_text
         \<lparr>state_index = i, axes = [], buttons = [], buttonValues = bv, state_timestamp = t\<rparr>
       = ''Gamepad '' @ to_string i @ '': AXES: | BUTTONS: ''"
proof (intro conjI impI)
  show "PrintXInputState s os = os\<lparr>os_text := os_text os @ XInputLine s\<rparr>" if "default_fmt os"
    using that by (rule PrintXInputState_appends)
  show "PrintDIState js os = os\<lparr>os_text := os_text os @ DILine js\<rparr>" if "default_fmt os"
    using that by (rule PrintDIState_appends)
  show "FormatGamepadState axis_text state =
       ''Gamepad '' @ to_string (state_index state) @ '': '' @ ''AXES: ''
       @ concat (map (\<lambda>i. ''A'' @ to_string (int i) @ ''='' @ axis_text (axes state ! i) @ '' '')
                   [0..<length (axes state)])
       @ ''| BUTTONS: ''
       @ map (\<lambda>b. if b then CHR ''1'' else CHR ''0'') (buttons state)"
    by (rule FormatGamepadState_closed)
  show "FormatGamepadState axis_text
         \<lparr>state_index = i, axes = [], buttons = [], buttonValues = bv, state_timestamp = t\<rparr>
       = ''Gamepad '' @ to_string i @ '': AXES: | BUTTONS: ''"
    by (simp add: FormatGamepadState_closed)
qed

theorem C9_formatters_pure_witness:
  "os_text (PrintXInputState xstate_a (PrintXInputState xstate_a ostream_init))
     = (''LX=  -123  LY=     0  RX= 32767  RY=-32768  LT=  7  RT=255  Buttons=0x1005  DPad(U/D/L/R)=1/0/1/0'' @ NL)
       @ (''LX=  -123  LY=     0  RX= 32767  RY=-32768  LT=  7  RT=255  Buttons=0x1005  DPad(U/D/L/R)=1/0/1/0'' @ NL)
   \<and> os_text (PrintDIState js_sample ostream_init)
     = ''AXES: lX=     1 lY=    -1 lZ= 65535 lRx=     0 lRy=     0 lRz=1234567 S0=     0 S1=     0 | POV: 9000 ---- ---- ---- | BTN: 00100000000000000000000000000000'' @ NL
   \<and> FormatGamepadState show_int
         \<lparr>state_index = 0, axes = [], buttons = [], buttonValues = [], state_timestamp = None\<rparr>
     = ''Gamepad 0: AXES: | BUTTONS: ''"
proof -
  have xl: "XInputLine xstate_a
      = ''LX=  -123  LY=     0  RX= 32767  RY=-32768  LT=  7  RT=255  Buttons=0x1005  DPad(U/D/L/R)=1/0/1/0'' @ NL"
    by (simp add: XInputLine_def PrintXInputState_def xstate_a_def xstate_b_def put_defs
      XINPUT_GAMEPAD_DPAD_UP_def XINPUT_GAMEPAD_DPAD_DOWN_def XINPUT_GAMEPAD_DPAD_LEFT_def
      XINPUT_GAMEPAD_DPAD_RIGHT_def)
  have dl: "DILine js_sample
      = ''AXES: lX=     1 lY=    -1 lZ= 65535 lRx=     0 lRy=     0 lRz=1234567 S0=     0 S1=     0 | POV: 9000 ---- ---- ---- | BTN: 00100000000000000000000000000000'' @ NL"
    by (simp add: DILine_def PrintDIState_def js_sample_def put_defs print_pov_def
          print_button_def upt_rec [of _ "numeral k" for k] Let_def)
  have z: "to_string 0 = ''0''"
    by (simp add: to_string_def show_int_def)
  have d0: "default_fmt ostream_init" by simp
  note first = C9_formatters_pure [of ostream_init xstate_a js_sample show_int
      "\<lparr>state_index = 0, axes = [], buttons = [], buttonValues = [], state_timestamp = None\<rparr>"
      0 "[]" None]
  from first d0 have one: "PrintXInputState xstate_a ostream_init
      = ostream_init\<lparr>os_text := os_text ostream_init @ XInputLine xstate_a\<rparr>" by blast
  then have d1: "default_fmt (PrintXInputState xstate_a ostream_init)"
    by (simp add: default_fmt_def ostream_init_def)
  from C9_formatters_pure [of "PrintXInputState xstate_a ostream_init" xstate_a js_sample show_int
      "\<lparr>state_index = 0, axes = [], buttons = [], buttonValues = [], state_timestamp = None\<rparr>"
      0 "[]" None] d1
  have two: "PrintXInputState xstate_a (PrintXInputState xstate_a ostream_init)
      = (PrintXInputState xstate_a ostream_init)
          \<lparr>os_text := os_text (PrintXInputState xstate_a ostream_init) @ XInputLine xstate_a\<rparr>"
    by blast
  from first d0 have di: "PrintDIState js_sample ostream_init
      = ostream_init\<lparr>os_text := os_text ostream_init @ DILine js_sample\<rparr>" by blast
  from first have web: "FormatGamepadState show_int
         \<lparr>state_index = 0, axes = [], buttons = [], buttonValues = [], state_timestamp = None\<rparr>
       = ''Gamepad '' @ to_string 0 @ '': AXES: | BUTTONS: ''" by blast
  have t1: "os_text (PrintXInputState xstate_a (PrintXInputState xstate_a ostream_init))
      = XInputLine xstate_a @ XInputLine xstate_a"
    by (subst two, subst one, subst one) (simp add: ostream_init_def)
  have t2: "os_text (PrintDIState js_sample ostream_init) = DILine js_sample"
    by (subst di) (simp add: ostream_init_def)
  show ?thesis
    unfolding t1 t2 web xl dl z by simp
qed

text \<open>
  C5: in polled mode, a run over successive successful reads prints exactly the lines of
  \<open>polled_output\<close>: nothing for a read whose packet number equals that of the read before
  it, and exactly one formatted line for a read whose packet number differs from the one
  remembered.
\<close>

theorem C5_polled_output:
  "(default_fmt (cout c) \<longrightarrow>
      RunXInputReader (replicate (length sts) True @ False # rs)
          (map (Pair ERROR_SUCCESS) sts @ rest) userIndex c
        = (Some 0,
           (reader_banner userIndex c)
             \<lparr>cout := (cout (reader_banner userIndex c))
                \<lparr>os_text := os_text (cout (reader_banner userIndex c)) @ polled_output 0 sts\<rparr>\<rparr>))
   \<and> polled_output lp [st1] = (if dwPacketNumber st1 = lp then [] else XInputLine st1)
   \<and> (dwPacketNumber st2 = dwPacketNumber st1 \<longrightarrow>
        polled_output lp (sts @ [st1, st2]) = polled_output lp (sts @ [st1]))
   \<and> (dwPacketNumber st2 \<noteq> dwPacketNumber st1 \<longrightarrow>
        polled_output lp (sts @ [st1, st2]) = polled_output lp (sts @ [st1]) @ XInputLine st2)"
proof (intro conjI impI)
  assume d: "default_fmt (cout c)"
  have "RunXInputReader (replicate (length sts) True @ False # rs)
          (map (Pair ERROR_SUCCESS) sts @ rest) userIndex c
      = (case polled_reads (0, reader_banner userIndex c) sts of
           (lp', c') \<Rightarrow> RunXInputLoop (False # rs) rest lp' c')"
    by (simp only: RunXInputReader_banner RunXInputLoop_reads)
  then show "RunXInputReader (replicate (length sts) True @ False # rs)
          (map (Pair ERROR_SUCCESS) sts @ rest) userIndex c
        = (Some 0,
           (reader_banner userIndex c)
             \<lparr>cout := (cout (reader_banner userIndex c))
                \<lparr>os_text := os_text (cout (reader_banner userIndex c)) @ polled_output 0 sts\<rparr>\<rparr>)"
    by (simp add: polled_reads_output [OF default_fmt_banner [OF d]])
next
  show "polled_output lp [st1] = (if dwPacketNumber st1 = lp then [] else XInputLine st1)"
    by simp
next
  assume "dwPacketNumber st2 = dwPacketNumber st1"
  then show "polled_output lp (sts @ [st1, st2]) = polled_output lp (sts @ [st1])"
    by (simp add: polled_output_append)
next
  assume "dwPacketNumber st2 \<noteq> dwPacketNumber st1"
  then show "polled_output lp (sts @ [st1, st2]) = polled_output lp (sts @ [st1]) @ XInputLine st2"
    by (simp add: polled_output_append)
qed

theorem C5_polled_output_witness:
  "os_text (cout (snd (RunXInputReader [True, True, True, False]
       [(ERROR_SUCCESS, xstate_a), (ERROR_SUCCESS, xstate_a), (ERROR_SUCCESS, xstate_b)] 0 console_init)))
     = ''Reading XInput controller 0 (Ctrl+C to stop)...'' @ NL
       @ ''LX=  -123  LY=     0  RX= 32767  RY=-32768  LT=  7  RT=255  Buttons=0x1005  DPad(U/D/L/R)=1/0/1/0'' @ NL
       @ ''LX=     0  LY=     0  RX=     0  RY=     0  LT=  0  RT=  0  Buttons=0x0000  DPad(U/D/L/R)=0/0/0/0'' @ NL
   \<and> fst (RunXInputReader [True, True, True, False]
       [(ERROR_SUCCESS, xstate_a), (ERROR_SUCCESS, xstate_a), (ERROR_SUCCESS, xstate_b)] 0 console_init)
     = Some 0"
proof -
  have xa: "XInputLine xstate_a
      = ''LX=  -123  LY=     0  RX= 32767  RY=-32768  LT=  7  RT=255  Buttons=0x1005  DPad(U/D/L/R)=1/0/1/0'' @ NL"
    by (simp add: XInputLine_def PrintXInputState_def xstate_a_def xstate_b_def put_defs
      XINPUT_GAMEPAD_DPAD_UP_def XINPUT_GAMEPAD_DPAD_DOWN_def XINPUT_GAMEPAD_DPAD_LEFT_def
      XINPUT_GAMEPAD_DPAD_RIGHT_def)
  have xb: "XInputLine xstate_b
      = ''LX=     0  LY=     0  RX=     0  RY=     0  LT=  0  RT=  0  Buttons=0x0000  DPad(U/D/L/R)=0/0/0/0'' @ NL"
    by (simp add: XInputLine_def PrintXInputState_def xstate_a_def xstate_b_def put_defs
      XINPUT_GAMEPAD_DPAD_UP_def XINPUT_GAMEPAD_DPAD_DOWN_def XINPUT_GAMEPAD_DPAD_LEFT_def
      XINPUT_GAMEPAD_DPAD_RIGHT_def)
  have pn: "dwPacketNumber xstate_a = 1" "dwPacketNumber xstate_b = 2"
    by (simp_all add: xstate_a_def xstate_b_def)
  have out: "polled_output 0 [xstate_a, xstate_a, xstate_b] = XInputLine xstate_a @ XInputLine xstate_b"
    by (simp add: pn)
  have banner: "os_text (cout (reader_banner 0 console_init))
      = ''Reading XInput controller 0 (Ctrl+C to stop)...'' @ NL"
    by (simp add: reader_banner_def to_cout_def console_init_def put_defs)
  have d: "default_fmt (cout console_init)"
    by (simp add: console_init_def)
  have shape: "replicate (length [xstate_a, xstate_a, xstate_b]) True @ False # [] = [True, True, True, False]"
      "map (Pair ERROR_SUCCESS) [xstate_a, xstate_a, xstate_b] @ []
         = [(ERROR_SUCCESS, xstate_a), (ERROR_SUCCESS, xstate_a), (ERROR_SUCCESS, xstate_b)]"
    by (simp_all add: numeral_3_eq_3)
  from C5_polled_output [of console_init "[xstate_a, xstate_a, xstate_b]" "[]" "[]" 0] d
  have run: "RunXInputReader [True, True, True, False]
       [(ERROR_SUCCESS, xstate_a), (ERROR_SUCCESS, xstate_a), (ERROR_SUCCESS, xstate_b)] 0 console_init
     = (Some 0,
           (reader_banner 0 console_init)
             \<lparr>cout := (cout (reader_banner 0 console_init))
                \<lparr>os_text := os_text (cout (reader_banner 0 console_init))
                     @ polled_output 0 [xstate_a, xstate_a, xstate_b]\<rparr>\<rparr>)"
    unfolding shape by blast
  show ?thesis
    unfolding run out banner xa xb by simp
qed

text \<open>
  C6: the polled reader has two terminal outcomes. It returns 0 when the stop flag is read
  as false, and 1, after printing the disconnect notice, when a read reports the slot
  disconnected; no other exit code occurs.
\<close>

theorem C6_polled_exit_codes:
  "(fst (RunXInputReader running reads userIndex c) = Some rc \<longrightarrow>
      (rc = 0 \<and> False \<in> set running) \<or> (rc = 1 \<and> (\<exists>r \<in> set reads. fst r \<noteq> ERROR_SUCCESS)))
   \<and> RunXInputReader (replicate (length sts) True @ False # rs)
         (map (Pair ERROR_SUCCESS) sts @ rest) userIndex c
       = (Some 0, snd (polled_reads (0, reader_banner userIndex c) sts))
   \<and> (res \<noteq> ERROR_SUCCESS \<longrightarrow>
        RunXInputReader (replicate (length sts) True @ True # rs)
          (map (Pair ERROR_SUCCESS) sts @ (res, st) # rest) userIndex c
        = (Some 1, to_cout [put_str (''Controller disconnected.'' @ NL)]
                     (snd (polled_reads (0, reader_banner userIndex c) sts))))"
proof (intro conjI impI)
  assume "fst (RunXInputReader running reads userIndex c) = Some rc"
  then show "(rc = 0 \<and> False \<in> set running) \<or> (rc = 1 \<and> (\<exists>r \<in> set reads. fst r \<noteq> ERROR_SUCCESS))"
    unfolding RunXInputReader_banner by (rule RunXInputLoop_codes)
next
  show "RunXInputReader (replicate (length sts) True @ False # rs)
         (map (Pair ERROR_SUCCESS) sts @ rest) userIndex c
       = (Some 0, snd (polled_reads (0, reader_banner userIndex c) sts))"
    unfolding RunXInputReader_banner RunXInputLoop_reads
    by (simp add: case_prod_beta)
next
  assume "res \<noteq> ERROR_SUCCESS"
  then show "RunXInputReader (replicate (length sts) True @ True # rs)
          (map (Pair ERROR_SUCCESS) sts @ (res, st) # rest) userIndex c
        = (Some 1, to_cout [put_str (''Controller disconnected.'' @ NL)]
                     (snd (polled_reads (0, reader_banner userIndex c) sts)))"
    unfolding RunXInputReader_banner RunXInputLoop_reads
    by (simp add: case_prod_beta)
qed

theorem C6_polled_exit_codes_witness:
  "fst (RunXInputReader [True, False] [(ERROR_SUCCESS, xstate_a)] 2 console_init) = Some 0
   \<and> fst (RunXInputReader [True, True, True] [(ERROR_SUCCESS, xstate_a), (1167, xstate_b)] 2 console_init)
       = Some 1
   \<and> os_text (cout (snd (RunXInputReader [True, True, True]
           [(ERROR_SUCCESS, xstate_a), (1167, xstate_b)] 2 console_init)))
       = ''Reading XInput controller 2 (Ctrl+C to stop)...'' @ NL
         @ ''LX=  -123  LY=     0  RX= 32767  RY=-32768  LT=  7  RT=255  Buttons=0x1005  DPad(U/D/L/R)=1/0/1/0'' @ NL
         @ ''Controller disconnected.'' @ NL"
proof -
  have ne: "(1167 :: DWORD) \<noteq> ERROR_SUCCESS"
    by (simp add: ERROR_SUCCESS_def)
  have shape: "replicate (length [xstate_a]) True @ False # [] = [True, False]"
      "replicate (length [xstate_a]) True @ True # [True] = [True, True, True]"
      "map (Pair ERROR_SUCCESS) [xstate_a] @ [] = [(ERROR_SUCCESS, xstate_a)]"
      "map (Pair ERROR_SUCCESS) [xstate_a] @ (1167, xstate_b) # []
         = [(ERROR_SUCCESS, xstate_a), (1167, xstate_b)]"
    by simp_all
  from C6_polled_exit_codes [of "[True, False]" "[(ERROR_SUCCESS, xstate_a)]" 2 console_init 0
              "[xstate_a]" "[]" "[]" 1167 xstate_b, unfolded shape]
  have stop: "RunXInputReader [True, False] [(ERROR_SUCCESS, xstate_a)] 2 console_init
       = (Some 0, snd (polled_reads (0, reader_banner 2 console_init) [xstate_a]))"
    by blast
  from ne C6_polled_exit_codes [of "[True, False]" "[(ERROR_SUCCESS, xstate_a)]" 2 console_init 0
              "[xstate_a]" "[True]" "[]" 1167 xstate_b, unfolded shape]
  have gone: "RunXInputReader [True, True, True]
           [(ERROR_SUCCESS, xstate_a), (1167, xstate_b)] 2 console_init
       = (Some 1, to_cout [put_str (''Controller disconnected.'' @ NL)]
                     (snd (polled_reads (0, reader_banner 2 console_init) [xstate_a])))"
    by blast
  have gone_text: "os_text (cout (to_cout [put_str (''Controller disconnected.'' @ NL)]
                     (snd (polled_reads (0, reader_banner 2 console_init) [xstate_a]))))
       = ''Reading XInput controller 2 (Ctrl+C to stop)...'' @ NL
         @ ''LX=  -123  LY=     0  RX= 32767  RY=-32768  LT=  7  RT=255  Buttons=0x1005  DPad(U/D/L/R)=1/0/1/0'' @ NL
         @ ''Controller disconnected.'' @ NL"
    by (simp add: to_cout_def reader_banner_def console_init_def xinput_changed_def
          PrintXInputState_def xstate_a_def put_defs
          XINPUT_GAMEPAD_DPAD_UP_def XINPUT_GAMEPAD_DPAD_DOWN_def XINPUT_GAMEPAD_DPAD_LEFT_def
          XINPUT_GAMEPAD_DPAD_RIGHT_def)
  show ?thesis
    by (simp only: stop gone fst_conv snd_conv gone_text simp_thms)
qed

section \<open>The event-driven reader\<close>

lemma reacquire_after_append:
  "reacquire_after p xs \<Longrightarrow> reacquire_after p (xs @ ys) = reacquire_after False ys"
  by (induction xs arbitrary: p) (auto split: if_splits)

lemma reacquire_after_count:
  "reacquire_after p xs \<Longrightarrow>
   length (filter (\<lambda>c. c = Acquire) xs) = (if p then 1 else 0) + length (filter lost_detected xs)"
  by (induction xs arbitrary: p) (auto simp: lost_detected_def split: if_splits)

lemma drain_calls:
  "drain ds = Some (calls, r) \<Longrightarrow>
     reacquire_after False calls \<and> (\<forall>hr. GetDeviceState hr \<notin> set calls)"
proof (induction ds arbitrary: calls r rule: drain.induct)
  case 1
  then show ?case by simp
next
  case (2 hr dwItems rest)
  show ?case
  proof (cases "state_lost hr")
    case True
    with "2.prems" obtain calls' where
      d: "drain rest = Some (calls', r)" and c: "calls = GetDeviceData hr # Acquire # calls'"
      by auto
    from "2.IH"(1) [OF True d] c True show ?thesis
      by (simp add: lost_detected_def)
  next
    case False
    show ?thesis
    proof (cases "FAILED hr \<or> dwItems = 0")
      case True
      with False "2.prems" have "calls = [GetDeviceData hr]" by auto
      with False show ?thesis by (simp add: lost_detected_def)
    next
      case stay: False
      with False "2.prems" obtain calls' where
        d: "drain rest = Some (calls', r)" and c: "calls = GetDeviceData hr # calls'"
        by auto
      from "2.IH"(2) [OF False stay d] c False show ?thesis
        by (simp add: lost_detected_def)
    qed
  qed
qed

text \<open>
  While every call of \<open>GetDeviceData\<close> reports the state lost, the drain re-acquires and
  asks again without leaving its inner loop.
\<close>

lemma drain_lost_only: "drain (replicate n (DIERR_INPUTLOST, k)) = None"
  by (induction n) (simp_all add: state_lost_def)

lemma di_iteration_calls:
  assumes "di_iteration dev c = Some (ctl, calls, dev', c')"
  shows "reacquire_after False calls"
proof (cases "waits dev")
  case Nil
  with assms show ?thesis by (simp add: di_iteration_def)
next
  case (Cons wait ws)
  consider (signal) "wait = WAIT_OBJECT_0"
    | (timeout) "wait \<noteq> WAIT_OBJECT_0" "wait = WAIT_TIMEOUT"
    | (failed) "wait \<noteq> WAIT_OBJECT_0" "wait \<noteq> WAIT_TIMEOUT"
    by blast
  then show ?thesis
  proof cases
    case signal
    with assms Cons obtain dcalls ds hr js sts where
      d: "drain (datas dev) = Some (dcalls, ds)" and st: "states dev = (hr, js) # sts"
      by (auto simp: di_iteration_def split: option.splits list.splits)
    from drain_calls [OF d] have ok: "reacquire_after False dcalls" by blast
    from assms Cons signal d st
    have "calls = WaitForSingleObject wait # dcalls @ [GetDeviceState hr, Acquire] \<and> state_lost hr
        \<or> calls = WaitForSingleObject wait # dcalls @ [GetDeviceState hr] \<and> \<not> state_lost hr"
      by (auto simp: di_iteration_def Let_def split: if_splits)
    then show ?thesis
      by (auto simp: lost_detected_def reacquire_after_append [OF ok])
  next
    case timeout
    with assms Cons show ?thesis
      by (auto simp: di_iteration_def Let_def lost_detected_def split: list.splits if_splits)
  next
    case failed
    with assms Cons show ?thesis
      by (auto simp: di_iteration_def lost_detected_def)
  qed
qed

lemma di_iteration_state_lost:
  assumes "di_iteration dev c = Some (ctl, calls, dev', c')"
    and "GetDeviceState hr \<in> set calls" and "state_lost hr"
  shows "ctl = Continue \<and> c' = c"
proof (cases "waits dev")
  case Nil
  with assms show ?thesis by (simp add: di_iteration_def)
next
  case (Cons wait ws)
  consider (signal) "wait = WAIT_OBJECT_0"
    | (timeout) "wait \<noteq> WAIT_OBJECT_0" "wait = WAIT_TIMEOUT"
    | (failed) "wait \<noteq> WAIT_OBJECT_0" "wait \<noteq> WAIT_TIMEOUT"
    by blast
  then show ?thesis
  proof cases
    case signal
    with assms Cons obtain dcalls ds hr' js sts where
      d: "drain (datas dev) = Some (dcalls, ds)" and st: "states dev = (hr', js) # sts"
      by (auto simp: di_iteration_def split: option.splits list.splits)
    from drain_calls [OF d] have no: "GetDeviceState hr \<notin> set dcalls" by blast
    from assms Cons signal d st no show ?thesis
      by (auto simp: di_iteration_def Let_def split: if_splits)
  next
    case timeout
    with assms Cons show ?thesis
      by (auto simp: di_iteration_def Let_def split: list.splits if_splits)
  next
    case failed
    with assms Cons show ?thesis
      by (auto simp: di_iteration_def)
  qed
qed

lemma RunDirectInputLoop_calls:
  "RunDirectInputLoop rs dev c = Some (calls, c') \<Longrightarrow> reacquire_after False calls"
proof (induction rs arbitrary: dev c calls c')
  case Nil
  then show ?case by simp
next
  case (Cons running rs)
  show ?case
  proof (cases running)
    case False
    with Cons.prems show ?thesis by simp
  next
    case True
    with Cons.prems obtain ctl calls1 dev1 c1 where
      it: "di_iteration dev c = Some (ctl, calls1, dev1, c1)"
      by (auto split: option.splits)
    have ok1: "reacquire_after False calls1"
      by (rule di_iteration_calls [OF it])
    show ?thesis
    proof (cases "ctl = Break")
      case True
      with Cons.prems \<open>running\<close> it ok1 show ?thesis by simp
    next
      case False
      with Cons.prems \<open>running\<close> it obtain calls2 where
        rest: "RunDirectInputLoop rs dev1 c1 = Some (calls2, c')" and c: "calls = calls1 @ calls2"
        by auto
      from Cons.IH [OF rest] c show ?thesis
        by (simp add: reacquire_after_append [OF ok1])
    qed
  qed
qed

lemma RunDirectInputReader_calls:
  assumes "RunDirectInputReader setup wnd rs dev c = Some (rc, calls, c')"
  shows "reacquire_after False calls"
proof (cases "RunDirectInputLoop rs dev
         (to_cout [put_str (''Reading DirectInput device (Ctrl+C to stop)...'' @ NL)] c)")
  case None
  with assms show ?thesis
    by (auto simp: RunDirectInputReader_def Let_def fail_with_def split: if_splits)
next
  case (Some res)
  obtain lcalls lc where res: "res = (lcalls, lc)" by (cases res)
  from RunDirectInputLoop_calls Some res have ok: "reacquire_after False lcalls" by blast
  have "reacquire_after False (lcalls @ [Unacquire, SetEventNotification_null, CloseHandle, Release, Release])"
    by (simp add: reacquire_after_append [OF ok] lost_detected_def)
  with assms Some res show ?thesis
    by (auto simp: RunDirectInputReader_def Let_def fail_with_def split: if_splits)
qed

lemma RunDirectInputReader_after_setup:
  assumes "RunDirectInputReader setup wnd rs dev c = Some (rc, calls, c')"
    and "rc \<notin> {2, 3, 4, 5, 6, 7, 8, 9}"
  shows "rc = 0"
  using assms
  by (auto simp: RunDirectInputReader_def Let_def fail_with_def split: if_splits option.splits)


lemmas di_consts = WAIT_OBJECT_0_def WAIT_TIMEOUT_def WAIT_FAILED_def DIERR_INPUTLOST_def
  DIERR_NOTACQUIRED_def DIERR_UNPLUGGED_def DI_OK_def state_lost_def FAILED_def SUCCEEDED_def

text \<open>
  C3 (as amended): every "device state lost" status, from the drain or from a full-state
  read, is followed at once by exactly one \<open>Acquire\<close>, and no other \<open>Acquire\<close> is made in the
  loop; when the status comes from the full-state read (after a signal or after a
  timeout) the iteration prints nothing and the loop continues with its next iteration.
\<close>

theorem C3_reacquire_once:
  "(RunDirectInputReader setup wnd rs dev c = Some (rc, calls, c') \<longrightarrow>
      reacquire_once calls
      \<and> length (filter (\<lambda>call. call = Acquire) calls) = length (filter lost_detected calls))
   \<and> (di_iteration dev c = Some (ctl, calls1, dev1, c1)
        \<and> GetDeviceState hr \<in> set calls1 \<and> state_lost hr
      \<longrightarrow> ctl = Continue \<and> c1 = c)"
proof (intro conjI impI)
  assume run: "RunDirectInputReader setup wnd rs dev c = Some (rc, calls, c')"
  then show "reacquire_once calls"
    unfolding reacquire_once_def by (rule RunDirectInputReader_calls)
  from run have "reacquire_after False calls"
    by (rule RunDirectInputReader_calls)
  then show "length (filter (\<lambda>call. call = Acquire) calls) = length (filter lost_detected calls)"
    by (simp add: reacquire_after_count)
next
  assume "di_iteration dev c = Some (ctl, calls1, dev1, c1)
        \<and> GetDeviceState hr \<in> set calls1 \<and> state_lost hr"
  then show "ctl = Continue" and "c1 = c"
    using di_iteration_state_lost by blast+
qed

theorem C3_reacquire_once_witness:
  "reacquire_once
     [WaitForSingleObject WAIT_OBJECT_0, GetDeviceData DI_OK, GetDeviceState DIERR_NOTACQUIRED,
      Acquire, WaitForSingleObject WAIT_TIMEOUT, GetDeviceState DI_OK,
      Unacquire, SetEventNotification_null, CloseHandle, Release, Release]
   \<and> map_option fst (RunDirectInputReader setup_ok True [True, True, False] dev_state_lost console_init)
       = Some 0
   \<and> map_option (snd \<circ> snd \<circ> snd) (di_iteration dev_state_lost console_init) = Some console_init
   \<and> map_option fst (di_iteration dev_state_lost console_init) = Some Continue"
proof -
  have it: "di_iteration dev_state_lost console_init
      = Some (Continue,
              [WaitForSingleObject WAIT_OBJECT_0, GetDeviceData DI_OK,
               GetDeviceState DIERR_NOTACQUIRED, Acquire],
              \<lparr>waits = [WAIT_TIMEOUT], datas = [], states = [(DI_OK, js_sample)]\<rparr>,
              console_init)"
    by (simp add: di_iteration_def dev_state_lost_def di_consts)
  have it2: "di_iteration \<lparr>waits = [WAIT_TIMEOUT], datas = [], states = [(DI_OK, js_sample)]\<rparr> c
      = Some (Continue, [WaitForSingleObject WAIT_TIMEOUT, GetDeviceState DI_OK],
              \<lparr>waits = [], datas = [], states = []\<rparr>, c)" for c
    by (simp add: di_iteration_def di_consts)
  have it1: "di_iteration dev_state_lost c
      = Some (Continue,
              [WaitForSingleObject WAIT_OBJECT_0, GetDeviceData DI_OK,
               GetDeviceState DIERR_NOTACQUIRED, Acquire],
              \<lparr>waits = [WAIT_TIMEOUT], datas = [], states = [(DI_OK, js_sample)]\<rparr>, c)" for c
    by (simp add: di_iteration_def dev_state_lost_def di_consts)
  have run: "RunDirectInputReader setup_ok True [True, True, False] dev_state_lost console_init
      = Some (0,
              [WaitForSingleObject WAIT_OBJECT_0, GetDeviceData DI_OK, GetDeviceState DIERR_NOTACQUIRED,
               Acquire, WaitForSingleObject WAIT_TIMEOUT, GetDeviceState DI_OK,
               Unacquire, SetEventNotification_null, CloseHandle, Release, Release],
              to_cout [put_str (''Reading DirectInput device (Ctrl+C to stop)...'' @ NL)] console_init)"
    by (simp add: RunDirectInputReader_def setup_ok_def Let_def it1 it2)
  have lost: "state_lost DIERR_NOTACQUIRED"
    by (simp add: state_lost_def)
  have mem: "GetDeviceState DIERR_NOTACQUIRED
      \<in> set [WaitForSingleObject WAIT_OBJECT_0, GetDeviceData DI_OK,
               GetDeviceState DIERR_NOTACQUIRED, Acquire]"
    by simp
  note T = C3_reacquire_once [of setup_ok True "[True, True, False]" dev_state_lost console_init 0
      "[WaitForSingleObject WAIT_OBJECT_0, GetDeviceData DI_OK, GetDeviceState DIERR_NOTACQUIRED,
        Acquire, WaitForSingleObject WAIT_TIMEOUT, GetDeviceState DI_OK,
        Unacquire, SetEventNotification_null, CloseHandle, Release, Release]"
      "to_cout [put_str (''Reading DirectInput device (Ctrl+C to stop)...'' @ NL)] console_init"
      Continue
      "[WaitForSingleObject WAIT_OBJECT_0, GetDeviceData DI_OK,
        GetDeviceState DIERR_NOTACQUIRED, Acquire]"
      "\<lparr>waits = [WAIT_TIMEOUT], datas = [], states = [(DI_OK, js_sample)]\<rparr>"
      console_init DIERR_NOTACQUIRED]
  from T run have a: "reacquire_once
     [WaitForSingleObject WAIT_OBJECT_0, GetDeviceData DI_OK, GetDeviceState DIERR_NOTACQUIRED,
      Acquire, WaitForSingleObject WAIT_TIMEOUT, GetDeviceState DI_OK,
      Unacquire, SetEventNotification_null, CloseHandle, Release, Release]"
    by blast
  from T it mem lost have b: "Continue = Continue \<and> console_init = console_init"
    by blast
  show ?thesis
    using a b by (simp add: run it)
qed

theorem C3_drain_loss_then_output:
  "map_option fst (di_iteration dev_drain_lost console_init) = Some Continue
   \<and> map_option (fst \<circ> snd) (di_iteration dev_drain_lost console_init)
       = Some [WaitForSingleObject WAIT_OBJECT_0, GetDeviceData DIERR_INPUTLOST, Acquire,
               GetDeviceData DI_OK, GetDeviceState DI_OK]
   \<and> map_option (os_text \<circ> cout \<circ> snd \<circ> snd \<circ> snd) (di_iteration dev_drain_lost console_init)
       = Some (''AXES: lX=     1 lY=    -1 lZ= 65535 lRx=     0 lRy=     0 lRz=1234567 S0=     0 S1=     0 | POV: 9000 ---- ---- ---- | BTN: 00100000000000000000000000000000'' @ NL)"
proof -
  have line: "os_text (PrintDIState js_sample ostream_init)
      = ''AXES: lX=     1 lY=    -1 lZ= 65535 lRx=     0 lRy=     0 lRz=1234567 S0=     0 S1=     0 | POV: 9000 ---- ---- ---- | BTN: 00100000000000000000000000000000'' @ NL"
    by (simp add: PrintDIState_def js_sample_def put_defs print_pov_def
          print_button_def upt_rec [of _ "numeral k" for k] Let_def)
  have it: "di_iteration dev_drain_lost console_init
      = Some (Continue,
              [WaitForSingleObject WAIT_OBJECT_0, GetDeviceData DIERR_INPUTLOST, Acquire,
               GetDeviceData DI_OK, GetDeviceState DI_OK],
              \<lparr>waits = [], datas = [], states = []\<rparr>,
              to_cout [PrintDIState js_sample] console_init)"
    by (simp add: di_iteration_def dev_drain_lost_def di_consts)
  show ?thesis
    unfolding it by (simp add: to_cout_def console_init_def line)
qed

text \<open>
  C4: at a timeout whose full-state read fails for a reason other than "state lost", and
  at a failed wait, \<open>RunDirectInputReader\<close> ends its loop and prints the message, but the
  exit code it returns is 0.
\<close>

theorem C4_event_reader_exit_code:
  "RunDirectInputReader setup_ok True [True] dev_gone console_init
     = Some (0,
             [WaitForSingleObject WAIT_TIMEOUT, GetDeviceState DIERR_UNPLUGGED,
              Unacquire, SetEventNotification_null, CloseHandle, Release, Release],
             to_cout [put_str (''Device disconnected or error.'' @ NL)]
               (to_cout [put_str (''Reading DirectInput device (Ctrl+C to stop)...'' @ NL)]
                  console_init))
   \<and> RunDirectInputReader setup_ok True [True] dev_wait_failed console_init
     = Some (0,
             [WaitForSingleObject WAIT_FAILED,
              Unacquire, SetEventNotification_null, CloseHandle, Release, Release],
             to_cerr [put_str (''WaitForSingleObject failed.'' @ NL)]
               (to_cout [put_str (''Reading DirectInput device (Ctrl+C to stop)...'' @ NL)]
                  console_init))"
proof -
  have gone: "di_iteration dev_gone c
      = Some (Break, [WaitForSingleObject WAIT_TIMEOUT, GetDeviceState DIERR_UNPLUGGED],
              \<lparr>waits = [], datas = [], states = []\<rparr>,
              to_cout [put_str (''Device disconnected or error.'' @ NL)] c)" for c
    by (simp add: di_iteration_def dev_gone_def di_consts)
  have failed: "di_iteration dev_wait_failed c
      = Some (Break, [WaitForSingleObject WAIT_FAILED],
              \<lparr>waits = [], datas = [], states = []\<rparr>,
              to_cerr [put_str (''WaitForSingleObject failed.'' @ NL)] c)" for c
    by (simp add: di_iteration_def dev_wait_failed_def di_consts)
  show ?thesis
    by (simp add: RunDirectInputReader_def setup_ok_def Let_def gone failed)
qed

section \<open>The frames of the browser build and the command line\<close>

lemma UpdateGamepadState_streaming:
  "g_streaming s \<Longrightarrow> 0 \<le> g_selectedGamepad s \<Longrightarrow>
   UpdateGamepadState axis_text b s
     = s\<lparr>web_cout := web_cout s @ frame_line axis_text (g_selectedGamepad s) b\<rparr>"
  by (simp add: UpdateGamepadState_def frame_line_def Let_def)

lemma UpdateGamepadState_idle:
  "\<not> (g_streaming s \<and> 0 \<le> g_selectedGamepad s) \<Longrightarrow> UpdateGamepadState axis_text b s = s"
  by (auto simp: UpdateGamepadState_def)

lemma frames_streaming:
  "g_streaming s \<Longrightarrow> 0 \<le> g_selectedGamepad s \<Longrightarrow>
   foldl (\<lambda>s b. UpdateGamepadState axis_text b s) s bs
     = s\<lparr>web_cout := web_cout s @ concat (map (frame_line axis_text (g_selectedGamepad s)) bs)\<rparr>"
proof (induction bs arbitrary: s)
  case Nil
  show ?case by simp
next
  case (Cons b bs)
  let ?s1 = "s\<lparr>web_cout := web_cout s @ frame_line axis_text (g_selectedGamepad s) b\<rparr>"
  have "foldl (\<lambda>s b. UpdateGamepadState axis_text b s) s (b # bs)
          = foldl (\<lambda>s b. UpdateGamepadState axis_text b s) ?s1 bs"
    using Cons.prems by (simp add: UpdateGamepadState_streaming)
  also have "\<dots> = ?s1\<lparr>web_cout := web_cout ?s1
                  @ concat (map (frame_line axis_text (g_selectedGamepad ?s1)) bs)\<rparr>"
    using Cons.prems by (intro Cons.IH) simp_all
  finally show ?case by simp
qed

lemma main_no_argument:
  "length argv < 2 \<Longrightarrow> main w argv c = (Some 0, PrintUsageAndList w c)"
  by (simp add: main_def)

lemma PrintUsageAndList_empty:
  "EnumerateDevices (present w) = [] \<Longrightarrow>
   PrintUsageAndList w c
     = to_cout [put_str (''No game controllers detected.'' @ NL)]
         (to_cout [put_str (''No argument: lists available devices with their integer index.''
                            @ NL @ NL)]
            (to_cout [put_str (''Usage: JoystickInput <deviceIndex>'' @ NL)] c))"
  by (simp add: PrintUsageAndList_def Let_def)

lemma main_stoi_throws:
  "2 \<le> length argv \<Longrightarrow> stoi (argv ! 1) = Inl e \<Longrightarrow>
   main w argv c
     = (Some 1, PrintUsageAndList w
          (to_cerr [put_str (''Invalid argument. Must be an integer device index.'' @ NL @ NL)] c))"
  by (simp add: main_def)

lemma main_out_of_range:
  "2 \<le> length argv \<Longrightarrow> stoi (argv ! 1) = Inr i \<Longrightarrow>
   i < 0 \<or> int (length (EnumerateDevices (present w))) \<le> i \<Longrightarrow>
   main w argv c
     = (Some 1, PrintUsageAndList w
          (to_cerr [put_str (''Device index out of range.'' @ NL @ NL)] c))"
  by (auto simp: main_def Let_def)

lemma main_valid_index:
  assumes "2 \<le> length argv" and "stoi (argv ! 1) = Inr i"
    and "0 \<le> i" and "i < int (length (EnumerateDevices (present w)))"
  shows "fst (main w argv c)
     = (let sel = EnumerateDevices (present w) ! nat i;
            c1 = to_cout [put_str ''Selected ['', put_int (index sel), put_str ''] '',
                          put_str (kind_label (kind sel)), put_str ''  '',
                          put_str (WToUtf8 (WideCharToMultiByte w) (name sel)), put_str NL] c
        in if kind sel = XInput
           then fst (RunXInputReader (g_Running_loads w) (XInputGetState_reads w (xinputUser sel))
                       (xinputUser sel) c1)
           else map_option fst
                  (RunDirectInputReader (dinput_setup w) (hidden_window_created w)
                     (g_Running_loads w) (dinput_device w (diGuid sel)) c1))"
  using assms by (auto simp: main_def Let_def split: option.splits)

lemma stoi_examples:
  "stoi ''abc'' = Inl invalid_argument" "stoi ''5'' = Inr 5" "stoi ''1abc'' = Inr 1"
  by (simp_all add: stoi_def isspace_def isdigit_def digits_value_def Let_def)


lemma main_xinput:
  assumes "2 \<le> length argv" and "stoi (argv ! 1) = Inr i"
    and "0 \<le> i" and "i < int (length (EnumerateDevices (present w)))"
    and "kind (EnumerateDevices (present w) ! nat i) = XInput"
  shows "main w argv c
     = RunXInputReader (g_Running_loads w)
         (XInputGetState_reads w (xinputUser (EnumerateDevices (present w) ! nat i)))
         (xinputUser (EnumerateDevices (present w) ! nat i))
         (to_cout [put_str ''Selected ['', put_int (index (EnumerateDevices (present w) ! nat i)),
                   put_str ''] '',
                   put_str (kind_label (kind (EnumerateDevices (present w) ! nat i))), put_str ''  '',
                   put_str (WToUtf8 (WideCharToMultiByte w)
                              (name (EnumerateDevices (present w) ! nat i))),
                   put_str NL] c)"
  using assms by (auto simp: main_def Let_def)

lemma unat_of_char: "unat (of_char c :: WCHAR) = of_char c"
proof -
  have "(of_char c :: nat) < 2 ^ 16"
    by (rule less_trans [OF nat_of_char_less_256]) simp
  moreover have "(of_char c :: WCHAR) = of_nat (of_char c)"
    by (simp add: of_nat_of_char)
  ultimately show ?thesis
    by (simp add: unat_of_nat)
qed

lemma ascii_of_wide_L: "ascii_of_wide (L s) = s"
  by (induction s) (simp_all add: ascii_of_wide_def L_def unat_of_char)

lemma ascii_of_wide_append: "ascii_of_wide (xs @ ys) = ascii_of_wide xs @ ascii_of_wide ys"
  by (simp add: ascii_of_wide_def)

lemma two_controllers_devices:
  "EnumerateDevices (present two_controllers)
     = [\<lparr>index = 0, kind = XInput, name = L ''XInput Controller '' @ to_wstring 0,
         xinputUser = 0, diGuid = GUID_NULL\<rparr>,
        \<lparr>index = 1, kind = XInput, name = L ''XInput Controller '' @ to_wstring 1,
         xinputUser = 1, diGuid = GUID_NULL\<rparr>]"
  by (simp add: EnumerateDevices_def two_controllers_def xinput_probe_def IsXInputConnected_def
        ERROR_SUCCESS_def assign_index_def Let_def)

text \<open>
  C7: with the argument "1abc" and two controllers in the catalog, \<open>std::stoi\<close> reads the
  leading 1, \<open>main\<close> prints no error, selects device 1, runs the reader and returns its
  exit code 0.
\<close>

theorem C7_trailing_text_accepted:
  "stoi ''1abc'' = Inr 1
   \<and> main two_controllers [''JoystickInput'', ''1abc''] console_init
     = (Some 0,
        \<lparr>cout = \<lparr>os_hex = False, os_fill = CHR '' '', os_width = 0,
                 os_text = ''Selected [1] XInput     XInput Controller 1'' @ NL
                           @ ''Reading XInput controller 1 (Ctrl+C to stop)...'' @ NL\<rparr>,
         cerr = \<lparr>os_hex = False, os_fill = CHR '' '', os_width = 0, os_text = []\<rparr>\<rparr>)"
proof -
  have st: "stoi ''1abc'' = Inr 1"
    by (rule stoi_examples)
  have sel: "EnumerateDevices (present two_controllers) ! nat 1
      = \<lparr>index = 1, kind = XInput, name = L ''XInput Controller '' @ to_wstring 1,
         xinputUser = 1, diGuid = GUID_NULL\<rparr>"
    by (simp add: two_controllers_devices)
  have nm: "WToUtf8 (WideCharToMultiByte two_controllers) (L ''XInput Controller '' @ to_wstring 1)
      = ''XInput Controller 1''"
    by (simp add: WToUtf8_def two_controllers_def to_wstring_def ascii_of_wide_append
          ascii_of_wide_L) (simp add: L_def)
  have "main two_controllers [''JoystickInput'', ''1abc''] console_init
      = RunXInputReader (g_Running_loads two_controllers)
         (XInputGetState_reads two_controllers
            (xinputUser (EnumerateDevices (present two_controllers) ! nat 1)))
         (xinputUser (EnumerateDevices (present two_controllers) ! nat 1))
         (to_cout [put_str ''Selected ['',
                   put_int (index (EnumerateDevices (present two_controllers) ! nat 1)),
                   put_str ''] '',
                   put_str (kind_label (kind (EnumerateDevices (present two_controllers) ! nat 1))),
                   put_str ''  '',
                   put_str (WToUtf8 (WideCharToMultiByte two_controllers)
                              (name (EnumerateDevices (present two_controllers) ! nat 1))),
                   put_str NL] console_init)"
    by (rule main_xinput) (simp_all add: st two_controllers_devices)
  also have "\<dots> = (Some 0,
        \<lparr>cout = \<lparr>os_hex = False, os_fill = CHR '' '', os_width = 0,
                 os_text = ''Selected [1] XInput     XInput Controller 1'' @ NL
                           @ ''Reading XInput controller 1 (Ctrl+C to stop)...'' @ NL\<rparr>,
         cerr = \<lparr>os_hex = False, os_fill = CHR '' '', os_width = 0, os_text = []\<rparr>\<rparr>)"
    unfolding sel
    by (simp add: nm) (simp add: RunXInputReader_def two_controllers_def to_cout_def console_init_def
          kind_label_def put_defs)
  finally show ?thesis using st by simp
qed

text \<open>
  C8 (as amended): while streaming, each call of \<open>UpdateGamepadState\<close> reads the state of
  the selected slot once and prints one formatted line whenever that state has an axis or
  a button, whether or not it differs from the frame before, and nothing when it has
  neither; when not streaming a call changes nothing.
\<close>

theorem C8_frame_emits_whenever_nonempty:
  "(g_streaming s \<and> 0 \<le> g_selectedGamepad s \<longrightarrow>
      foldl (\<lambda>s b. UpdateGamepadState axis_text b s) s bs
        = s\<lparr>web_cout := web_cout s @ concat (map (frame_line axis_text (g_selectedGamepad s)) bs)\<rparr>)
   \<and> (\<not> (g_streaming s \<and> 0 \<le> g_selectedGamepad s) \<longrightarrow> UpdateGamepadState axis_text b s = s)"
  using frames_streaming [of s axis_text bs] UpdateGamepadState_idle [of s axis_text b]
  by blast

theorem C8_unchanged_state_emitted_again:
  "web_cout (UpdateGamepadState show_int browser_two_pads
       (UpdateGamepadState show_int browser_two_pads
          (snd (StartStreaming browser_two_pads 0 web_init))))
     = web_cout (snd (StartStreaming browser_two_pads 0 web_init))
       @ (''Gamepad 0: AXES: | BUTTONS: 10'' @ NL) @ (''Gamepad 0: AXES: | BUTTONS: 10'' @ NL)"
proof -
  have len: "length (g_gamepads (UpdateGamepadList browser_two_pads s)) = 2" for s
    by (simp add: UpdateGamepadList_def browser_two_pads_def probe_gamepad_def
                  pad_connected_def EMSCRIPTEN_RESULT_SUCCESS_def numeral_2_eq_2)
  have ne: "g_gamepads (UpdateGamepadList browser_two_pads s) \<noteq> []" for s
    using len [of s] by auto
  have started: "g_streaming (snd (StartStreaming browser_two_pads 0 web_init))"
      "g_selectedGamepad (snd (StartStreaming browser_two_pads 0 web_init)) = 0"
    by (simp_all add: StartStreaming_def Let_def ne)
  have line: "frame_line show_int 0 browser_two_pads = ''Gamepad 0: AXES: | BUTTONS: 10'' @ NL"
    by (simp add: frame_line_def GetGamepadState_def browser_two_pads_def pad_connected_def
          EMSCRIPTEN_RESULT_SUCCESS_def FormatGamepadState_closed to_string_def show_int_def
          numeral_2_eq_2)
  show ?thesis
    by (simp add: UpdateGamepadState_streaming started line)
qed

theorem C8_frame_emits_whenever_nonempty_witness:
  "foldl (\<lambda>s b. UpdateGamepadState show_int b s) (snd (StartStreaming browser_two_pads 0 web_init))
       [browser_two_pads, browser_second_slot, browser_two_pads]
     = (snd (StartStreaming browser_two_pads 0 web_init))
         \<lparr>web_cout := web_cout (snd (StartStreaming browser_two_pads 0 web_init))
            @ (''Gamepad 0: AXES: | BUTTONS: 10'' @ NL) @ (''Gamepad 0: AXES: | BUTTONS: 10'' @ NL)\<rparr>
   \<and> UpdateGamepadState show_int browser_two_pads web_init = web_init"
proof -
  have len: "length (g_gamepads (UpdateGamepadList browser_two_pads s)) = 2" for s
    by (simp add: UpdateGamepadList_def browser_two_pads_def probe_gamepad_def
                  pad_connected_def EMSCRIPTEN_RESULT_SUCCESS_def numeral_2_eq_2)
  have ne: "g_gamepads (UpdateGamepadList browser_two_pads s) \<noteq> []" for s
    using len [of s] by auto
  have started: "g_streaming (snd (StartStreaming browser_two_pads 0 web_init))
      \<and> 0 \<le> g_selectedGamepad (snd (StartStreaming browser_two_pads 0 web_init))"
    by (simp add: StartStreaming_def Let_def ne)
  have sel: "g_selectedGamepad (snd (StartStreaming browser_two_pads 0 web_init)) = 0"
    by (simp add: StartStreaming_def Let_def ne)
  have idle: "\<not> (g_streaming web_init \<and> 0 \<le> g_selectedGamepad web_init)"
    by (simp add: web_init_def)
  have line: "frame_line show_int 0 browser_two_pads = ''Gamepad 0: AXES: | BUTTONS: 10'' @ NL"
    by (simp add: frame_line_def GetGamepadState_def browser_two_pads_def pad_connected_def
          EMSCRIPTEN_RESULT_SUCCESS_def FormatGamepadState_closed to_string_def show_int_def
          numeral_2_eq_2)
  have empty: "frame_line show_int 0 browser_second_slot = []"
    by (simp add: frame_line_def GetGamepadState_def browser_second_slot_def pad_absent_def
          EMSCRIPTEN_RESULT_SUCCESS_def)
  from C8_frame_emits_whenever_nonempty
         [of "snd (StartStreaming browser_two_pads 0 web_init)" show_int
             "[browser_two_pads, browser_second_slot, browser_two_pads]" browser_two_pads] started
  have a: "foldl (\<lambda>s b. UpdateGamepadState show_int b s)
             (snd (StartStreaming browser_two_pads 0 web_init))
             [browser_two_pads, browser_second_slot, browser_two_pads]
     = (snd (StartStreaming browser_two_pads 0 web_init))
         \<lparr>web_cout := web_cout (snd (StartStreaming browser_two_pads 0 web_init))
            @ concat (map (frame_line show_int
                        (g_selectedGamepad (snd (StartStreaming browser_two_pads 0 web_init))))
                 [browser_two_pads, browser_second_slot, browser_two_pads])\<rparr>"
    by blast
  from C8_frame_emits_whenever_nonempty [of web_init show_int "[]" browser_two_pads] idle
  have b: "UpdateGamepadState show_int browser_two_pads web_init = web_init"
    by blast
  show ?thesis
    unfolding a sel using b by (simp add: line empty)
qed

section \<open>The invariant of the browser build\<close>

lemma web_inv_init: "web_inv web_init"
  by (simp add: web_inv_def web_init_def)

lemma web_inv_exec: "web_inv s \<Longrightarrow> web_inv (web_exec axis_text s call)"
  by (cases call)
     (auto simp: web_inv_def ListGamepads_def StartStreaming_def StopStreaming_def
                 UpdateGamepadState_def UpdateGamepadList_def Let_def)

lemma web_inv_foldl: "web_inv s \<Longrightarrow> web_inv (foldl (web_exec axis_text) s calls)"
  by (induction calls arbitrary: s) (simp_all add: web_inv_exec)

text \<open>
  C10: the streaming flag is true exactly when the selected index is non-negative; this
  holds initially and after every sequence of exported operations, so \<open>IsStreaming\<close>
  returns 1 exactly when \<open>GetSelectedGamepad\<close> returns a value \<open>\<ge> 0\<close>.
\<close>

theorem C10_streaming_iff_selected:
  "web_inv web_init
   \<and> (web_inv s \<longrightarrow> web_inv (web_exec axis_text s call))
   \<and> web_inv (foldl (web_exec axis_text) web_init calls)
   \<and> (IsStreaming (foldl (web_exec axis_text) web_init calls) = 1
        \<longleftrightarrow> GetSelectedGamepad (foldl (web_exec axis_text) web_init calls) \<ge> 0)"
proof -
  have reach: "web_inv (foldl (web_exec axis_text) web_init calls)"
    by (rule web_inv_foldl [OF web_inv_init])
  then have "IsStreaming (foldl (web_exec axis_text) web_init calls) = 1
        \<longleftrightarrow> GetSelectedGamepad (foldl (web_exec axis_text) web_init calls) \<ge> 0"
    by (simp add: web_inv_def IsStreaming_def GetSelectedGamepad_def)
  with reach web_inv_init web_inv_exec show ?thesis by blast
qed

theorem C10_streaming_iff_selected_witness:
  "web_inv (snd (StartStreaming browser_two_pads 1 web_init))
   \<and> web_inv (web_exec show_int (snd (StartStreaming browser_two_pads 1 web_init)) Call_StopStreaming)
   \<and> IsStreaming (foldl (web_exec show_int) web_init
         [Call_ListGamepads browser_two_pads, Call_StartStreaming browser_two_pads 1]) = 1
   \<and> GetSelectedGamepad (foldl (web_exec show_int) web_init
         [Call_ListGamepads browser_two_pads, Call_StartStreaming browser_two_pads 1]) = 1"
proof -
  have len: "length (g_gamepads (UpdateGamepadList browser_two_pads s)) = 2" for s
    by (simp add: UpdateGamepadList_def browser_two_pads_def probe_gamepad_def
                  pad_connected_def EMSCRIPTEN_RESULT_SUCCESS_def numeral_2_eq_2)
  have started: "web_inv (snd (StartStreaming browser_two_pads 1 web_init))"
    by (simp add: StartStreaming_def Let_def len web_inv_def)
  have sel: "GetSelectedGamepad (foldl (web_exec show_int) web_init
         [Call_ListGamepads browser_two_pads, Call_StartStreaming browser_two_pads 1]) = 1"
    by (simp add: StartStreaming_def Let_def len GetSelectedGamepad_def)
  from started sel
    C10_streaming_iff_selected [of "snd (StartStreaming browser_two_pads 1 web_init)" show_int
      Call_StopStreaming "[Call_ListGamepads browser_two_pads, Call_StartStreaming browser_two_pads 1]"]
  show ?thesis by simp
qed

end
